theory Spec2Isabelle
  imports Complex_Main
begin

section \<open>Conventions of the embedding\<close>

text \<open>
  Python floats are modelled as the real numbers: every arithmetic operation is the exact
  one, \<open>np.sqrt\<close> is the real square root and rounding is left out.
  A \<open>datetime\<close> is an integer number of microseconds since the epoch, a
  \<open>timedelta\<close> is their difference, and every \<open>datetime.now()\<close> of one operation
  is the clock reading \<open>now\<close> handed to the operation.
  A \<open>dict\<close> is an association list in insertion order (keys are distinct in every
  dict the code builds).
  A \<open>BehavioralFeatures\<close> object is modelled by its value. The code keeps in a
  profile the object the caller passed and updates it in place, so profiles created from
  one object share it; a registry state here holds the current value of each profile's
  features, and the theorems of the claims below state nothing about what a matched
  detection does to the movement speed and height estimate of another profile.
\<close>

subsection \<open>Dictionaries in insertion order\<close>

fun dict_set :: "'k \<Rightarrow> 'v \<Rightarrow> ('k \<times> 'v) list \<Rightarrow> ('k \<times> 'v) list" where
  "dict_set k v [] = [(k, v)]"
| "dict_set k v ((k', v') # rest) =
     (if k' = k then (k, v) # rest else (k', v') # dict_set k v rest)"

definition dict_del :: "'k \<Rightarrow> ('k \<times> 'v) list \<Rightarrow> ('k \<times> 'v) list" where
  "dict_del k d = filter (\<lambda>kv. fst kv \<noteq> k) d"

definition dict_keys :: "('k \<times> 'v) list \<Rightarrow> 'k list" where
  "dict_keys d = map fst d"

definition dict_values :: "('k \<times> 'v) list \<Rightarrow> 'v list" where
  "dict_values d = map snd d"

section \<open>ephemeral\_identity\_demo.py\<close>

subsection \<open>BehavioralFeatures\<close>

record BehavioralFeatures =
  movement_speed :: real
  height_estimate :: real
  activity_time :: string
  interaction_zone :: string
  movement_pattern :: string

definition time_encoding :: "string \<Rightarrow> real" where
  "time_encoding s =
     (if s = ''morning'' then 0 else if s = ''afternoon'' then 1
      else if s = ''evening'' then 2 else if s = ''night'' then 3 else 0)"

definition zone_encoding :: "string \<Rightarrow> real" where
  "zone_encoding s =
     (if s = ''kitchen'' then 0 else if s = ''living_room'' then 1
      else if s = ''bedroom'' then 2 else if s = ''bathroom'' then 3 else 0)"

definition pattern_encoding :: "string \<Rightarrow> real" where
  "pattern_encoding s =
     (if s = ''steady'' then 0 else if s = ''variable'' then 1
      else if s = ''stationary'' then 2 else 0)"

definition to_vector :: "BehavioralFeatures \<Rightarrow> real list" where
  "to_vector f =
     [movement_speed f, height_estimate f, time_encoding (activity_time f),
      zone_encoding (interaction_zone f), pattern_encoding (movement_pattern f)]"

subsection \<open>EntityProfile\<close>

type_synonym datetime = int

definition timedelta_days :: "int \<Rightarrow> int" where
  \<comment> \<open>the \<open>days\<close> field of a normalised timedelta: floor of the whole days\<close>
  "timedelta_days delta = delta div 86400000000"

definition days :: "int \<Rightarrow> int" where
  \<comment> \<open>\<open>timedelta(days=n)\<close> in microseconds\<close>
  "days n = n * 86400000000"

record EntityProfile =
  entity_id :: string
  first_observed :: datetime
  last_seen :: datetime
  observation_count :: int
  typical_features :: "BehavioralFeatures option"
  confidence :: real

definition is_expired :: "datetime \<Rightarrow> EntityProfile \<Rightarrow> int \<Rightarrow> bool" where
  "is_expired now p expiry_d =
     (let inactivity = now - last_seen p in timedelta_days inactivity > expiry_d)"

definition update :: "datetime \<Rightarrow> EntityProfile \<Rightarrow> BehavioralFeatures \<Rightarrow> EntityProfile" where
  "update now p features =
     (let p1 = p\<lparr>last_seen := now\<rparr>;
          p2 = p1\<lparr>observation_count := observation_count p1 + 1\<rparr>;
          p3 = p2\<lparr>confidence := min 1 (real_of_int (observation_count p2) / 10)\<rparr>
      in case typical_features p3 of
           None \<Rightarrow> p3\<lparr>typical_features := Some features\<rparr>
         | Some tf \<Rightarrow>
             (let alpha = 3 / 10;
                  current_vec = to_vector tf;
                  new_vec = to_vector features;
                  updated_vec =
                    map2 (\<lambda>n c. alpha * n + (1 - alpha) * c) new_vec current_vec
              in p3\<lparr>typical_features :=
                       Some (tf\<lparr>movement_speed := updated_vec ! 0,
                                 height_estimate := updated_vec ! 1\<rparr>)\<rparr>))"

subsection \<open>EphemeralIdentityManager\<close>

record EphemeralIdentityManager =
  entities :: "(string \<times> EntityProfile) list"
  similarity_threshold :: real
  expiry_days :: int

definition init_manager :: "real \<Rightarrow> int \<Rightarrow> EphemeralIdentityManager" where
  "init_manager threshold expiry_d =
     \<lparr>entities = [], similarity_threshold = threshold, expiry_days = expiry_d\<rparr>"

definition generate_entity_id :: "string \<Rightarrow> string" where
  \<comment> \<open>the argument is the value of \<open>secrets.token_hex(16)\<close>\<close>
  "generate_entity_id token_hex = ''entity_'' @ token_hex"

definition weights :: "real list" where
  "weights = [2, 2, 1, 1, 1]"

definition linalg_norm :: "real list \<Rightarrow> real" where
  "linalg_norm v = sqrt (sum_list (map (\<lambda>x. x ^ 2) v))"

definition calculate_similarity :: "BehavioralFeatures \<Rightarrow> BehavioralFeatures \<Rightarrow> real" where
  "calculate_similarity features1 features2 =
     (let vec1 = to_vector features1;
          vec2 = to_vector features2;
          diff = map2 (*) (map2 (-) vec1 vec2) weights;
          distance = linalg_norm diff;
          max_distance = 10
      in max 0 (1 - distance / max_distance))"

fun find_matching_loop ::
  "datetime \<Rightarrow> real \<Rightarrow> int \<Rightarrow> BehavioralFeatures \<Rightarrow> (string \<times> EntityProfile) list \<Rightarrow>
   string option \<Rightarrow> real \<Rightarrow> string option" where
  "find_matching_loop now thr ex features [] best_match_id best_similarity = best_match_id"
| "find_matching_loop now thr ex features ((eid, profile) # rest) best_match_id best_similarity =
     (if is_expired now profile ex
      then find_matching_loop now thr ex features rest best_match_id best_similarity
      else case typical_features profile of
             None \<Rightarrow> find_matching_loop now thr ex features rest best_match_id best_similarity
           | Some tf \<Rightarrow>
               (let similarity = calculate_similarity features tf
                in if similarity > best_similarity \<and> similarity > thr
                   then find_matching_loop now thr ex features rest (Some eid) similarity
                   else find_matching_loop now thr ex features rest
                          best_match_id best_similarity))"

definition find_matching_entity ::
  "EphemeralIdentityManager \<Rightarrow> datetime \<Rightarrow> BehavioralFeatures \<Rightarrow> string option" where
  "find_matching_entity m now features =
     find_matching_loop now (similarity_threshold m) (expiry_days m) features
       (entities m) None 0"

definition new_profile :: "string \<Rightarrow> datetime \<Rightarrow> BehavioralFeatures \<Rightarrow> EntityProfile" where
  "new_profile eid now features =
     \<lparr>entity_id = eid, first_observed = now, last_seen = now, observation_count = 1,
      typical_features = Some features, confidence = 1 / 10\<rparr>"

definition register_new_entity ::
  "EphemeralIdentityManager \<Rightarrow> datetime \<Rightarrow> string \<Rightarrow> BehavioralFeatures \<Rightarrow>
   EphemeralIdentityManager \<times> string \<times> bool" where
  \<comment> \<open>the \<open>else\<close> branch of \<open>detect_entity\<close>\<close>
  "register_new_entity m now token_hex features =
     (let eid = generate_entity_id token_hex;
          profile = new_profile eid now features
      in (m\<lparr>entities := dict_set eid profile (entities m)\<rparr>, eid, True))"

definition detect_entity ::
  "EphemeralIdentityManager \<Rightarrow> datetime \<Rightarrow> string \<Rightarrow> BehavioralFeatures \<Rightarrow>
   EphemeralIdentityManager \<times> string \<times> bool" where
  "detect_entity m now token_hex features =
     (case find_matching_entity m now features of
        None \<Rightarrow> register_new_entity m now token_hex features
      | Some eid \<Rightarrow>
          if eid \<noteq> []
          then (m\<lparr>entities :=
                    map (\<lambda>(k, p). if k = eid then (k, update now p features) else (k, p))
                      (entities m)\<rparr>,
                eid, False)
          else register_new_entity m now token_hex features)"

definition cleanup_expired_entities ::
  "EphemeralIdentityManager \<Rightarrow> datetime \<Rightarrow> EphemeralIdentityManager \<times> nat" where
  "cleanup_expired_entities m now =
     (let expired = map fst (filter (\<lambda>(eid, profile). is_expired now profile (expiry_days m))
                                (entities m))
      in (m\<lparr>entities := fold dict_del expired (entities m)\<rparr>, length expired))"

definition get_entity_info :: "EphemeralIdentityManager \<Rightarrow> string \<Rightarrow> EntityProfile option" where
  "get_entity_info m eid = map_of (entities m) eid"

section \<open>pattern\_memory\_demo.py\<close>

datatype error = ZeroDivisionError

subsection \<open>TemporalPattern, SpatialPattern, ActivityPattern\<close>

text \<open>
  The field \<open>observation_count\<close> of \<open>TemporalPattern\<close> is named
  \<open>observation_count_t\<close> here, apart from the one of \<open>EntityProfile\<close>; it
  starts as the integer 0 and holds a float after the first decay.
\<close>

record TemporalPattern =
  active_hours_mean :: real
  active_hours_std :: real
  typical_duration_mean :: real
  typical_duration_std :: real
  frequency_per_day :: real
  pattern_stability :: real
  last_updated :: datetime
  observation_count_t :: real

record SpatialPattern =
  zone_frequencies :: "(string \<times> real) list"
  movement_speed_mean :: real
  movement_speed_std :: real
  zone_transitions :: "((string \<times> string) \<times> real) list"

record ActivityPattern =
  activity_type :: string
  temporal :: TemporalPattern
  spatial :: SpatialPattern
  success_rate :: real
  typical_assistance_needed :: real

definition default_TemporalPattern :: "datetime \<Rightarrow> TemporalPattern" where
  "default_TemporalPattern now =
     \<lparr>active_hours_mean = 12, active_hours_std = 4, typical_duration_mean = 0,
      typical_duration_std = 0, frequency_per_day = 0, pattern_stability = 0,
      last_updated = now, observation_count_t = 0\<rparr>"

definition default_SpatialPattern :: SpatialPattern where
  "default_SpatialPattern =
     \<lparr>zone_frequencies = [], movement_speed_mean = 0, movement_speed_std = 0,
      zone_transitions = []\<rparr>"

definition default_ActivityPattern :: "datetime \<Rightarrow> string \<Rightarrow> ActivityPattern" where
  "default_ActivityPattern now a =
     \<lparr>activity_type = a, temporal = default_TemporalPattern now,
      spatial = default_SpatialPattern, success_rate = 0, typical_assistance_needed = 0\<rparr>"

subsection \<open>PatternMemory\<close>

record PatternMemory =
  patterns :: "(string \<times> ActivityPattern) list"
  decay_factor :: real
  total_observations :: int

definition init_memory :: "real \<Rightarrow> PatternMemory" where
  "init_memory d = \<lparr>patterns = [], decay_factor = d, total_observations = 0\<rparr>"

text \<open>
  The first-sample test \<open>observation_count == 1\<close> is exact here: it holds when the
  stored count is 0. In binary64 it also holds when the stored count is so small (below
  \<open>2^-53\<close>) that adding 1 to it gives 1; from \<open>2^-52\<close> on the two agree.
\<close>

definition update_temporal_pattern ::
  "datetime \<Rightarrow> TemporalPattern \<Rightarrow> real \<Rightarrow> real \<Rightarrow> TemporalPattern" where
  "update_temporal_pattern now temporal0 hour duration =
     (let alpha = 1 / 5;
          t1 = temporal0\<lparr>observation_count_t := observation_count_t temporal0 + 1\<rparr>;
          t2 = (if observation_count_t t1 = 1
                then t1\<lparr>active_hours_mean := hour, active_hours_std := 0\<rparr>
                else (let old_mean = active_hours_mean t1;
                          u = t1\<lparr>active_hours_mean :=
                                   alpha * hour + (1 - alpha) * active_hours_mean t1\<rparr>;
                          diff = hour - old_mean
                      in u\<lparr>active_hours_std :=
                              sqrt (alpha * diff ^ 2 + (1 - alpha) * (active_hours_std u) ^ 2)\<rparr>));
          t3 = (if observation_count_t t2 = 1
                then t2\<lparr>typical_duration_mean := duration, typical_duration_std := 0\<rparr>
                else (let old_mean = typical_duration_mean t2;
                          u = t2\<lparr>typical_duration_mean :=
                                   alpha * duration + (1 - alpha) * typical_duration_mean t2\<rparr>;
                          diff = duration - old_mean
                      in u\<lparr>typical_duration_std :=
                              sqrt (alpha * diff ^ 2
                                    + (1 - alpha) * (typical_duration_std u) ^ 2)\<rparr>));
          t4 = t3\<lparr>pattern_stability := min 1 (observation_count_t t3 / 20)\<rparr>
      in t4\<lparr>last_updated := now\<rparr>)"

definition bump_zone :: "(string \<times> real) list \<Rightarrow> string \<Rightarrow> (string \<times> real) list" where
  \<comment> \<open>the zone count update that opens \<open>_update_spatial_pattern\<close>\<close>
  "bump_zone zf zone =
     (case map_of zf zone of None \<Rightarrow> dict_set zone 1 zf | Some v \<Rightarrow> dict_set zone (v + 1) zf)"

definition update_spatial_pattern ::
  "SpatialPattern \<Rightarrow> string \<Rightarrow> real \<Rightarrow> error + SpatialPattern" where
  "update_spatial_pattern spatial0 zone speed =
     (let alpha = 1 / 5;
          zf1 = bump_zone (zone_frequencies spatial0) zone;
          total = sum_list (dict_values zf1)
      in if total = 0 then Inl ZeroDivisionError
         else (let s1 = spatial0\<lparr>zone_frequencies := map (\<lambda>(z, v). (z, v / total)) zf1\<rparr>
               in Inr (if movement_speed_mean s1 = 0
                       then s1\<lparr>movement_speed_mean := speed, movement_speed_std := 0\<rparr>
                       else (let old_mean = movement_speed_mean s1;
                                 u = s1\<lparr>movement_speed_mean :=
                                          alpha * speed + (1 - alpha) * movement_speed_mean s1\<rparr>;
                                 diff = speed - old_mean
                             in u\<lparr>movement_speed_std :=
                                     sqrt (alpha * diff ^ 2
                                           + (1 - alpha) * (movement_speed_std u) ^ 2)\<rparr>))))"

definition decay_pattern :: "real \<Rightarrow> ActivityPattern \<Rightarrow> ActivityPattern" where
  \<comment> \<open>the body of the loop of \<open>_apply_decay\<close>\<close>
  "decay_pattern d pattern =
     (let t = temporal pattern;
          t1 = t\<lparr>observation_count_t := observation_count_t t * d\<rparr>;
          t2 = t1\<lparr>pattern_stability := pattern_stability t1 * d\<rparr>;
          s = spatial pattern;
          s1 = s\<lparr>zone_frequencies := map (\<lambda>(z, v). (z, v * d)) (zone_frequencies s)\<rparr>
      in pattern\<lparr>temporal := t2, spatial := s1\<rparr>)"

definition apply_decay :: "PatternMemory \<Rightarrow> PatternMemory" where
  "apply_decay m =
     m\<lparr>patterns := map (\<lambda>(k, pattern). (k, decay_pattern (decay_factor m) pattern))
                      (patterns m)\<rparr>"

definition get_or_create :: "PatternMemory \<Rightarrow> datetime \<Rightarrow> string \<Rightarrow> ActivityPattern" where
  \<comment> \<open>the pattern \<open>observe_activity\<close> works on: the stored one, or a new default one\<close>
  "get_or_create m now a =
     (case map_of (patterns m) a of None \<Rightarrow> default_ActivityPattern now a | Some p \<Rightarrow> p)"

text \<open>
  The renormalisation divides by the sum of the zone counts; a sum of 0 raises
  \<open>ZeroDivisionError\<close>, which ends the call (the result is then the error alone: the
  store an aborted call leaves behind is not modelled).
\<close>

definition observe_activity ::
  "PatternMemory \<Rightarrow> datetime \<Rightarrow> string \<Rightarrow> real \<Rightarrow> real \<Rightarrow> string \<Rightarrow> real \<Rightarrow>
   error + PatternMemory" where
  "observe_activity m now a hour duration_minutes zone movement_speed_arg =
     (let pattern = get_or_create m now a;
          temporal1 = update_temporal_pattern now (temporal pattern) hour duration_minutes
      in case update_spatial_pattern (spatial pattern) zone movement_speed_arg of
           Inl e \<Rightarrow> Inl e
         | Inr spatial1 \<Rightarrow>
             (let m1 = m\<lparr>patterns :=
                          dict_set a (pattern\<lparr>temporal := temporal1, spatial := spatial1\<rparr>)
                            (patterns m)\<rparr>;
                  m2 = apply_decay m1
              in Inr (m2\<lparr>total_observations := total_observations m2 + 1\<rparr>)))"

definition get_pattern :: "PatternMemory \<Rightarrow> string \<Rightarrow> ActivityPattern option" where
  "get_pattern m a = map_of (patterns m) a"

definition detect_anomaly :: "PatternMemory \<Rightarrow> string \<Rightarrow> real \<Rightarrow> real \<Rightarrow> bool \<times> real" where
  "detect_anomaly m a current_hour current_duration =
     (case get_pattern m a of
        None \<Rightarrow> (False, 0)
      | Some pattern \<Rightarrow>
          if observation_count_t (temporal pattern) < 3 then (False, 0)
          else (let t = temporal pattern;
                    hour_zscore =
                      (if active_hours_std t > 0
                       then \<bar>(current_hour - active_hours_mean t) / active_hours_std t\<bar>
                       else 0);
                    duration_zscore =
                      (if typical_duration_std t > 0
                       then \<bar>(current_duration - typical_duration_mean t)
                             / typical_duration_std t\<bar>
                       else 0);
                    deviation = max hour_zscore duration_zscore;
                    is_anomaly = deviation > 2
                in (is_anomaly, deviation)))"

subsection \<open>Sequences of calls\<close>

text \<open>
  A caller's sequence of \<open>observe_activity\<close> calls, each with its clock reading; the
  first exception ends it.
\<close>

fun observe_all ::
  "PatternMemory \<Rightarrow> (datetime \<times> string \<times> real \<times> real \<times> string \<times> real) list \<Rightarrow>
   error + PatternMemory" where
  "observe_all m [] = Inr m"
| "observe_all m ((now, a, hour, duration_minutes, zone, speed) # rest) =
     (case observe_activity m now a hour duration_minutes zone speed of
        Inl e \<Rightarrow> Inl e
      | Inr m' \<Rightarrow> observe_all m' rest)"

text \<open>The pattern stored for an activity in the result of a call, if the call returned.\<close>

definition pattern_after :: "error + PatternMemory \<Rightarrow> string \<Rightarrow> ActivityPattern option" where
  "pattern_after r a = (case r of Inl e \<Rightarrow> None | Inr m \<Rightarrow> get_pattern m a)"

subsection \<open>Invariants of the stores\<close>

text \<open>No stored zone frequency is negative.\<close>

definition zone_values_nonneg :: "(string \<times> real) list \<Rightarrow> bool" where
  "zone_values_nonneg zf = list_all (\<lambda>zv. 0 \<le> snd zv) zf"

definition zones_nonneg :: "PatternMemory \<Rightarrow> bool" where
  "zones_nonneg m =
     list_all (\<lambda>kp. zone_values_nonneg (zone_frequencies (spatial (snd kp)))) (patterns m)"

text \<open>No stored standard deviation of the hour or of the duration is negative.\<close>

definition stds_nonneg :: "PatternMemory \<Rightarrow> bool" where
  "stds_nonneg m =
     list_all (\<lambda>kp. 0 \<le> active_hours_std (temporal (snd kp)) \<and>
                     0 \<le> typical_duration_std (temporal (snd kp))) (patterns m)"

subsection \<open>The z-score as the specification words it\<close>

text \<open>
  Follows the specification (\<open>|x - mean| / std\<close>, 0 if \<open>std == 0\<close>); the code's own
  computation is inside \<open>detect_anomaly\<close>.
\<close>

definition spec_zscore :: "real \<Rightarrow> real \<Rightarrow> real \<Rightarrow> real" where
  "spec_zscore x mean std = (if std = 0 then 0 else \<bar>x - mean\<bar> / std)"

subsection \<open>Which profiles can match\<close>

text \<open>
  The similarity of a feature record to a stored profile, and the profiles that
  \<open>find_matching_entity\<close> can select: not expired, with typical features, and with a
  similarity above both the threshold and the initial \<open>best_similarity\<close> of 0.
\<close>

definition profile_similarity :: "BehavioralFeatures \<Rightarrow> EntityProfile \<Rightarrow> real" where
  "profile_similarity features p =
     (case typical_features p of None \<Rightarrow> 0 | Some tf \<Rightarrow> calculate_similarity features tf)"

definition eligible :: "datetime \<Rightarrow> real \<Rightarrow> int \<Rightarrow> BehavioralFeatures \<Rightarrow> EntityProfile \<Rightarrow> bool" where
  "eligible now thr ex features p =
     (\<not> is_expired now p ex \<and> typical_features p \<noteq> None \<and>
      profile_similarity features p > thr)"

definition qualifies ::
  "EphemeralIdentityManager \<Rightarrow> datetime \<Rightarrow> BehavioralFeatures \<Rightarrow> EntityProfile \<Rightarrow> bool" where
  "qualifies m now features p =
     (eligible now (similarity_threshold m) (expiry_days m) features p \<and>
      profile_similarity features p > 0)"


text \<open>
  What a matched \<open>detect_entity\<close> leaves alone in the profiles it did not match:
  everything but the movement speed and the height estimate of their typical features.
\<close>

definition same_apart_from_speed_height :: "EntityProfile \<Rightarrow> EntityProfile \<Rightarrow> bool" where
  "same_apart_from_speed_height q q' =
     (entity_id q' = entity_id q \<and> first_observed q' = first_observed q \<and>
      last_seen q' = last_seen q \<and> observation_count q' = observation_count q \<and>
      confidence q' = confidence q \<and>
      (case typical_features q of
         None \<Rightarrow> typical_features q' = None
       | Some t \<Rightarrow>
           (case typical_features q' of
              None \<Rightarrow> False
            | Some t' \<Rightarrow>
                activity_time t' = activity_time t \<and>
                interaction_zone t' = interaction_zone t \<and>
                movement_pattern t' = movement_pattern t)))"

subsection \<open>Sequences of detections, and the confidence invariant\<close>

text \<open>
  A caller's sequence of \<open>detect_entity\<close> calls, each with its clock reading, random
  token and feature record; it returns the final registry and the results in order.
\<close>

fun detect_all ::
  "EphemeralIdentityManager \<Rightarrow> (datetime \<times> string \<times> BehavioralFeatures) list \<Rightarrow>
   EphemeralIdentityManager \<times> (string \<times> bool) list" where
  "detect_all m [] = (m, [])"
| "detect_all m ((now, token_hex, features) # rest) =
     (case detect_entity m now token_hex features of
        (m1, r) \<Rightarrow> (case detect_all m1 rest of (m2, rs) \<Rightarrow> (m2, r # rs)))"

text \<open>Every stored profile has the confidence \<open>min(1, observation_count / 10)\<close>.\<close>

definition confidence_inv :: "EphemeralIdentityManager \<Rightarrow> bool" where
  "confidence_inv m =
     list_all (\<lambda>kp. confidence (snd kp) = min 1 (real_of_int (observation_count (snd kp)) / 10))
       (entities m)"

subsection \<open>Concrete stores used in the examples\<close>

text \<open>
  The store after \<open>observe_activity("x", 7.5, 25.0, "kitchen", 1.2)\<close> at time 0 on a new
  \<open>PatternMemory(decay_factor=0.95)\<close>.
\<close>

definition memory_after_x :: PatternMemory where
  "memory_after_x =
     \<lparr>patterns =
        [(''x'', \<lparr>activity_type = ''x'',
                 temporal = \<lparr>active_hours_mean = 15 / 2, active_hours_std = 0,
                             typical_duration_mean = 25, typical_duration_std = 0,
                             frequency_per_day = 0, pattern_stability = 19 / 400,
                             last_updated = 0, observation_count_t = 19 / 20\<rparr>,
                 spatial = \<lparr>zone_frequencies = [(''kitchen'', 19 / 20)],
                            movement_speed_mean = 6 / 5, movement_speed_std = 0,
                            zone_transitions = []\<rparr>,
                 success_rate = 0, typical_assistance_needed = 0\<rparr>)],
      decay_factor = 19 / 20, total_observations = 1\<rparr>"

text \<open>
  Four breakfasts on a new \<open>PatternMemory(decay_factor=0.95)\<close>, and the store they
  leave: the hour and the duration each have the deviation 0.6.
\<close>

definition breakfast_observations ::
  "(datetime \<times> string \<times> real \<times> real \<times> string \<times> real) list" where
  "breakfast_observations =
     [(0, ''breakfast'', 7, 20, ''kitchen'', 6 / 5),
      (1, ''breakfast'', 8, 21, ''kitchen'', 6 / 5),
      (2, ''breakfast'', 41 / 5, 106 / 5, ''kitchen'', 6 / 5),
      (3, ''breakfast'', 8, 21, ''kitchen'', 6 / 5)]"

definition memory_breakfast :: PatternMemory where
  "memory_breakfast =
     \<lparr>patterns =
        [(''breakfast'',
          \<lparr>activity_type = ''breakfast'',
           temporal = \<lparr>active_hours_mean = 188 / 25, active_hours_std = 3 / 5,
                       typical_duration_mean = 513 / 25, typical_duration_std = 3 / 5,
                       frequency_per_day = 0, pattern_stability = 563901 / 3200000,
                       last_updated = 3, observation_count_t = 563901 / 160000\<rparr>,
           spatial = \<lparr>zone_frequencies = [(''kitchen'', 19 / 20)],
                      movement_speed_mean = 6 / 5, movement_speed_std = 0,
                      zone_transitions = []\<rparr>,
           success_rate = 0, typical_assistance_needed = 0\<rparr>)],
      decay_factor = 19 / 20, total_observations = 4\<rparr>"

text \<open>A feature record, and a registry with one stale and one recent profile.\<close>

definition demo_features :: BehavioralFeatures where
  "demo_features = \<lparr>movement_speed = 6 / 5, height_estimate = 7 / 4, activity_time = ''morning'',
     interaction_zone = ''kitchen'', movement_pattern = ''steady''\<rparr>"

definition two_profiles :: EphemeralIdentityManager where
  "two_profiles =
     \<lparr>entities = [(''old_entity'', new_profile ''old_entity'' 0 demo_features),
                  (''recent_entity'', new_profile ''recent_entity'' (days 30) demo_features)],
      similarity_threshold = 17 / 20, expiry_days = 30\<rparr>"

text \<open>
  A record close to \<open>demo_features\<close> (similarity 0.99), one far from it (similarity 0),
  and a registry with a negative threshold holding one profile.
\<close>

definition similar_features :: BehavioralFeatures where
  "similar_features = demo_features\<lparr>movement_speed := 23 / 20\<rparr>"

definition far_features :: BehavioralFeatures where
  "far_features = demo_features\<lparr>movement_speed := 31 / 5\<rparr>"

definition lenient_registry :: EphemeralIdentityManager where
  "lenient_registry =
     \<lparr>entities = [(''old_entity'', new_profile ''old_entity'' 0 demo_features)],
      similarity_threshold = - 1 / 2, expiry_days = 30\<rparr>"

section \<open>Dictionaries\<close>

lemma map_of_dict_set: "map_of (dict_set k v d) = (map_of d)(k \<mapsto> v)"
  by (induction d) (auto simp: fun_eq_iff)

lemma map_of_map_values:
  "map_of (map (\<lambda>(k, v). (k, f v)) d) k = map_option f (map_of d k)"
  by (induction d) auto

lemma dict_set_nonempty: "dict_set k v d \<noteq> []"
  by (cases d) (auto split: if_splits)

lemma set_dict_set: "set (dict_set k v d) \<subseteq> insert (k, v) (set d)"
  by (induction d) (auto split: if_splits)

section \<open>Similarity\<close>

lemma linalg_norm_nonneg: "0 \<le> linalg_norm v"
  unfolding linalg_norm_def
  by (rule real_sqrt_ge_zero) (rule sum_list_nonneg, auto)

lemma weighted_diff_sq_sym:
  "sum_list (map (\<lambda>x. x ^ 2) (map2 (*) (map2 (-) (to_vector a) (to_vector b)) weights)) =
   sum_list (map (\<lambda>x. x ^ 2) (map2 (*) (map2 (-) (to_vector b) (to_vector a)) weights))"
  by (simp add: to_vector_def weights_def power2_commute)

text \<open>
  C10: the similarity of a feature record to itself is 1, the similarity is symmetric,
  and it always lies between 0 and 1.
\<close>

theorem calculate_similarity_properties:
  "calculate_similarity a a = 1 \<and>
   calculate_similarity a b = calculate_similarity b a \<and>
   0 \<le> calculate_similarity a b \<and> calculate_similarity a b \<le> 1"
proof -
  have self: "calculate_similarity a a = 1"
    by (simp add: calculate_similarity_def linalg_norm_def to_vector_def weights_def)
  have sym: "calculate_similarity a b = calculate_similarity b a"
    using weighted_diff_sq_sym [of a b]
    by (simp add: calculate_similarity_def linalg_norm_def)
  have lo: "0 \<le> calculate_similarity a b"
    by (simp add: calculate_similarity_def)
  have hi: "calculate_similarity a b \<le> 1"
    using linalg_norm_nonneg
    by (simp add: calculate_similarity_def)
  from self sym lo hi show ?thesis by blast
qed

section \<open>Identity registry: expiry and cleanup\<close>

lemma fold_dict_del: "fold dict_del ks d = filter (\<lambda>kv. fst kv \<notin> set ks) d"
  by (induction ks arbitrary: d) (auto simp: dict_del_def intro: filter_cong)

lemma filter_keys_distinct:
  "distinct (map fst d) \<Longrightarrow>
   filter (\<lambda>kv. fst kv \<notin> set (map fst (filter P d))) d = filter (\<lambda>kv. \<not> P kv) d"
proof (rule filter_cong[OF refl])
  fix kv assume d: "distinct (map fst d)" and kv: "kv \<in> set d"
  have "fst kv \<in> set (map fst (filter P d)) \<longleftrightarrow> P kv"
  proof
    assume "fst kv \<in> set (map fst (filter P d))"
    then obtain kv' where kv': "kv' \<in> set d" "P kv'" "fst kv' = fst kv" by auto
    from d kv kv'(1,3) have "kv' = kv" by (metis eq_key_imp_eq_value prod.collapse)
    with kv'(2) show "P kv" by simp
  next
    assume "P kv" with kv show "fst kv \<in> set (map fst (filter P d))" by force
  qed
  then show "(fst kv \<notin> set (map fst (filter P d))) = (\<not> P kv)" by simp
qed

lemma days_30: "timedelta_days (days 30) = 30" "timedelta_days (days 31) = 31"
  by (simp_all add: timedelta_days_def days_def)

lemma timedelta_days_floor: "timedelta_days delta = \<lfloor>real_of_int delta / 86400000000\<rfloor>"
proof -
  have "\<lfloor>real_of_int delta / real_of_int 86400000000\<rfloor> = delta div 86400000000"
    by (rule floor_divide_of_int_eq)
  then show ?thesis by (simp add: timedelta_days_def)
qed

lemma map_of_filter_absent:
  "k \<notin> fst ` set d \<Longrightarrow> map_of (filter P d) k = None"
  by (induction d) auto

lemma map_of_filter_distinct:
  "distinct (map fst d) \<Longrightarrow>
   map_of (filter P d) k =
     (case map_of d k of None \<Rightarrow> None | Some v \<Rightarrow> if P (k, v) then Some v else None)"
  by (induction d) (auto simp: map_of_filter_absent split: option.splits)

section \<open>Claims about the identity registry\<close>

text \<open>
  C9: with an expiry of 30 days a profile last seen exactly 30 days ago is not expired
  and one last seen 31 days ago is; a profile is expired exactly when the floor of the
  days since it was last seen exceeds the expiry. \<open>cleanup_expired_entities\<close> keeps
  exactly the profiles that are not expired, in their order and unchanged, leaves the
  configuration alone, and returns how many it removed.
\<close>

theorem cleanup_expired_entities_spec:
  assumes "distinct (map fst (entities m))"
  shows "(now - last_seen p = days 30 \<longrightarrow> \<not> is_expired now p 30) \<and>
         (now - last_seen p = days 31 \<longrightarrow> is_expired now p 30) \<and>
         is_expired now p e = (\<lfloor>real_of_int (now - last_seen p) / 86400000000\<rfloor> > e) \<and>
         cleanup_expired_entities m now =
           (m\<lparr>entities := filter (\<lambda>(eid, q). \<not> is_expired now q (expiry_days m)) (entities m)\<rparr>,
            length (filter (\<lambda>(eid, q). is_expired now q (expiry_days m)) (entities m))) \<and>
         snd (cleanup_expired_entities m now) =
           length (entities m) - length (entities (fst (cleanup_expired_entities m now)))"
proof -
  let ?P = "\<lambda>(eid, q). is_expired now q (expiry_days m)"
  have a: "now - last_seen p = days 30 \<longrightarrow> \<not> is_expired now p 30"
    by (simp add: is_expired_def days_30)
  have b: "now - last_seen p = days 31 \<longrightarrow> is_expired now p 30"
    by (simp add: is_expired_def days_30)
  have c: "is_expired now p e = (\<lfloor>real_of_int (now - last_seen p) / 86400000000\<rfloor> > e)"
    unfolding is_expired_def Let_def timedelta_days_floor ..
  have f: "fold dict_del (map fst (filter ?P (entities m))) (entities m) =
           filter (\<lambda>kv. \<not> ?P kv) (entities m)"
    unfolding fold_dict_del by (rule filter_keys_distinct [OF assms])
  have g: "(\<lambda>kv. \<not> ?P kv) = (\<lambda>(eid, q). \<not> is_expired now q (expiry_days m))"
    by auto
  have d: "cleanup_expired_entities m now =
           (m\<lparr>entities := filter (\<lambda>(eid, q). \<not> is_expired now q (expiry_days m)) (entities m)\<rparr>,
            length (filter ?P (entities m)))"
    unfolding cleanup_expired_entities_def Let_def f g by simp
  have len: "length (filter ?P (entities m)) =
        length (entities m) - length (filter (\<lambda>kv. \<not> ?P kv) (entities m))"
    using sum_length_filter_compl [of ?P "entities m"] by simp
  have e: "snd (cleanup_expired_entities m now) =
           length (entities m) - length (entities (fst (cleanup_expired_entities m now)))"
    unfolding d using len by (simp add: g)
  from a b c d e show ?thesis by blast
qed

text \<open>The theorem on the registry of two profiles, 31 days after the stale one was seen.\<close>

theorem cleanup_expired_entities_spec_witness:
  "distinct (map fst (entities two_profiles)) \<and>
   cleanup_expired_entities two_profiles (days 31) =
     (two_profiles\<lparr>entities := [(''recent_entity'', new_profile ''recent_entity'' (days 30) demo_features)]\<rparr>, 1) \<and>
   \<not> is_expired (days 30) (new_profile ''old_entity'' 0 demo_features) 30 \<and>
   is_expired (days 31) (new_profile ''old_entity'' 0 demo_features) 30"
proof -
  have h: "distinct (map fst (entities two_profiles))"
    by (simp add: two_profiles_def)
  show ?thesis
    using h cleanup_expired_entities_spec [OF h, of "days 31" "new_profile ''old_entity'' 0 demo_features" 30]
      cleanup_expired_entities_spec [OF h, of "days 30" "new_profile ''old_entity'' 0 demo_features" 30]
    by (simp add: two_profiles_def new_profile_def is_expired_def timedelta_days_def days_def)
qed

text \<open>
  C3, as the code has it: \<open>get_entity_info\<close> is the plain lookup. It returns
  \<open>None\<close> exactly when no profile is stored under the id, and the stored profile
  otherwise, expired or not; an expired profile disappears from it only when
  \<open>cleanup_expired_entities\<close> removes it.
\<close>

theorem get_entity_info_stored_profile:
  "(get_entity_info m eid = None \<longleftrightarrow> eid \<notin> set (dict_keys (entities m))) \<and>
   (\<forall>p. distinct (dict_keys (entities m)) \<and> (eid, p) \<in> set (entities m) \<longrightarrow>
      get_entity_info m eid = Some p) \<and>
   (distinct (dict_keys (entities m)) \<longrightarrow>
      get_entity_info (fst (cleanup_expired_entities m now)) eid =
        (case get_entity_info m eid of
           None \<Rightarrow> None
         | Some p \<Rightarrow> if is_expired now p (expiry_days m) then None else Some p))"
proof -
  have a: "get_entity_info m eid = None \<longleftrightarrow> eid \<notin> set (dict_keys (entities m))"
    by (simp add: get_entity_info_def dict_keys_def map_of_eq_None_iff)
  have b: "\<forall>p. distinct (dict_keys (entities m)) \<and> (eid, p) \<in> set (entities m) \<longrightarrow>
      get_entity_info m eid = Some p"
    by (simp add: get_entity_info_def dict_keys_def)
  have c: "get_entity_info (fst (cleanup_expired_entities m now)) eid =
        (case get_entity_info m eid of
           None \<Rightarrow> None
         | Some p \<Rightarrow> if is_expired now p (expiry_days m) then None else Some p)"
    if d: "distinct (dict_keys (entities m))"
  proof -
    from d have d': "distinct (map fst (entities m))" by (simp add: dict_keys_def)
    have "fold dict_del
            (map fst (filter (\<lambda>(k, q). is_expired now q (expiry_days m)) (entities m)))
            (entities m) =
          filter (\<lambda>kv. \<not> (case kv of (k, q) \<Rightarrow> is_expired now q (expiry_days m))) (entities m)"
      unfolding fold_dict_del by (rule filter_keys_distinct [OF d'])
    then show ?thesis
      by (simp add: cleanup_expired_entities_def get_entity_info_def Let_def
          map_of_filter_distinct [OF d'] split: option.splits)
  qed
  from a b c show ?thesis by blast
qed

text \<open>The theorem on the registry of two profiles, before and after a cleanup at day 31.\<close>

theorem get_entity_info_stored_profile_witness:
  "distinct (dict_keys (entities two_profiles)) \<and>
   get_entity_info two_profiles ''old_entity'' = Some (new_profile ''old_entity'' 0 demo_features) \<and>
   get_entity_info (fst (cleanup_expired_entities two_profiles (days 31))) ''old_entity'' = None \<and>
   get_entity_info (fst (cleanup_expired_entities two_profiles (days 31))) ''recent_entity''
     = Some (new_profile ''recent_entity'' (days 30) demo_features) \<and>
   get_entity_info two_profiles ''nobody'' = None"
proof -
  have d: "distinct (dict_keys (entities two_profiles))"
    by (simp add: two_profiles_def dict_keys_def)
  have i: "(''old_entity'', new_profile ''old_entity'' 0 demo_features) \<in> set (entities two_profiles)"
    by (simp add: two_profiles_def)
  have old: "get_entity_info two_profiles ''old_entity'' = Some (new_profile ''old_entity'' 0 demo_features)"
    using get_entity_info_stored_profile [of two_profiles "''old_entity''" 0] d i by blast
  have rec: "get_entity_info two_profiles ''recent_entity''
       = Some (new_profile ''recent_entity'' (days 30) demo_features)"
    by (simp add: get_entity_info_def two_profiles_def)
  have e: "is_expired (days 31) (new_profile ''old_entity'' 0 demo_features) (expiry_days two_profiles)"
    "\<not> is_expired (days 31) (new_profile ''recent_entity'' (days 30) demo_features)
        (expiry_days two_profiles)"
    by (simp_all add: is_expired_def timedelta_days_def days_def new_profile_def two_profiles_def)
  have c1: "get_entity_info (fst (cleanup_expired_entities two_profiles (days 31))) ''old_entity'' = None"
    using get_entity_info_stored_profile [of two_profiles "''old_entity''" "days 31"] d old e
    by simp
  have c2: "get_entity_info (fst (cleanup_expired_entities two_profiles (days 31))) ''recent_entity''
     = Some (new_profile ''recent_entity'' (days 30) demo_features)"
    using get_entity_info_stored_profile [of two_profiles "''recent_entity''" "days 31"] d rec e
    by simp
  have n: "get_entity_info two_profiles ''nobody'' = None"
    using get_entity_info_stored_profile [of two_profiles "''nobody''" 0]
    by (simp add: two_profiles_def dict_keys_def)
  from d old c1 c2 n show ?thesis by blast
qed

text \<open>
  C3 as stated fails: a profile created at time 0 with an expiry of 30 days is expired
  at day 31 and still returned.
\<close>

theorem get_entity_info_expired_counterexample:
  "is_expired (days 31)
     (new_profile ''entity_0123456789abcdef0123456789abcdef'' 0 demo_features) 30 \<and>
   get_entity_info
     (fst (detect_entity (init_manager (17 / 20) 30) 0 ''0123456789abcdef0123456789abcdef''
             demo_features))
     ''entity_0123456789abcdef0123456789abcdef''
   = Some (new_profile ''entity_0123456789abcdef0123456789abcdef'' 0 demo_features)"
  by (simp add: is_expired_def timedelta_days_def days_def new_profile_def detect_entity_def
      find_matching_entity_def init_manager_def register_new_entity_def generate_entity_id_def
      get_entity_info_def Let_def)

section \<open>Identity registry: matching\<close>

lemma find_matching_loop_skip:
  "\<not> (eligible now thr ex f p \<and> bs < profile_similarity f p) \<Longrightarrow>
   find_matching_loop now thr ex f ((k, p) # rest) b bs =
   find_matching_loop now thr ex f rest b bs"
  by (auto simp: eligible_def profile_similarity_def Let_def split: option.splits)

lemma find_matching_loop_take:
  "eligible now thr ex f p \<Longrightarrow> bs < profile_similarity f p \<Longrightarrow>
   find_matching_loop now thr ex f ((k, p) # rest) b bs =
   find_matching_loop now thr ex f rest (Some k) (profile_similarity f p)"
  by (auto simp: eligible_def profile_similarity_def Let_def split: option.splits)

lemma find_matching_loop_cases:
  "(find_matching_loop now thr ex f xs b bs = b \<and>
    (\<forall>kp\<in>set xs. eligible now thr ex f (snd kp) \<longrightarrow> profile_similarity f (snd kp) \<le> bs)) \<or>
   (\<exists>pre k p post. xs = pre @ (k, p) # post \<and>
      find_matching_loop now thr ex f xs b bs = Some k \<and>
      eligible now thr ex f p \<and> bs < profile_similarity f p \<and>
      (\<forall>kp\<in>set pre. eligible now thr ex f (snd kp) \<longrightarrow>
         profile_similarity f (snd kp) < profile_similarity f p) \<and>
      (\<forall>kp\<in>set post. eligible now thr ex f (snd kp) \<longrightarrow>
         profile_similarity f (snd kp) \<le> profile_similarity f p))"
  (is "?A xs b bs \<or> ?B xs b bs")
proof (induction xs arbitrary: b bs)
  case Nil
  then show ?case by simp
next
  case (Cons x xs)
  obtain k p where x: "x = (k, p)" by (cases x)
  show ?case
  proof (cases "eligible now thr ex f p \<and> bs < profile_similarity f p")
    case False
    note skip = find_matching_loop_skip [OF False, of k xs b]
    from Cons.IH [of b bs] show ?thesis
    proof
      assume a: "?A xs b bs"
      with False have "?A (x # xs) b bs" unfolding x skip by auto
      then show ?thesis ..
    next
      assume "?B xs b bs"
      then obtain pre k' p' post where
        d: "xs = pre @ (k', p') # post"
        and r: "find_matching_loop now thr ex f xs b bs = Some k'"
        and e: "eligible now thr ex f p'" "bs < profile_similarity f p'"
        and pre: "\<forall>kp\<in>set pre. eligible now thr ex f (snd kp) \<longrightarrow>
                   profile_similarity f (snd kp) < profile_similarity f p'"
        and post: "\<forall>kp\<in>set post. eligible now thr ex f (snd kp) \<longrightarrow>
                   profile_similarity f (snd kp) \<le> profile_similarity f p'"
        by blast
      have d': "x # xs = (x # pre) @ (k', p') # post" using d by simp
      have pre': "\<forall>kp\<in>set (x # pre). eligible now thr ex f (snd kp) \<longrightarrow>
                   profile_similarity f (snd kp) < profile_similarity f p'"
        using pre False e(2) by (auto simp: x)
      have r': "find_matching_loop now thr ex f (x # xs) b bs = Some k'"
        unfolding x skip by (rule r)
      from d' r' e pre' post have "?B (x # xs) b bs" by blast
      then show ?thesis ..
    qed
  next
    case True
    then have el: "eligible now thr ex f p" and gt: "bs < profile_similarity f p" by auto
    note take = find_matching_loop_take [OF el gt, of k xs b]
    from Cons.IH [of "Some k" "profile_similarity f p"] show ?thesis
    proof
      assume a: "?A xs (Some k) (profile_similarity f p)"
      have d': "x # xs = [] @ (k, p) # xs" by (simp add: x)
      have r': "find_matching_loop now thr ex f (x # xs) b bs = Some k"
        unfolding x take using a by simp
      from d' r' el gt a have "?B (x # xs) b bs" by fastforce
      then show ?thesis ..
    next
      assume "?B xs (Some k) (profile_similarity f p)"
      then obtain pre k' p' post where
        d: "xs = pre @ (k', p') # post"
        and r: "find_matching_loop now thr ex f xs (Some k) (profile_similarity f p) = Some k'"
        and e: "eligible now thr ex f p'" "profile_similarity f p < profile_similarity f p'"
        and pre: "\<forall>kp\<in>set pre. eligible now thr ex f (snd kp) \<longrightarrow>
                   profile_similarity f (snd kp) < profile_similarity f p'"
        and post: "\<forall>kp\<in>set post. eligible now thr ex f (snd kp) \<longrightarrow>
                   profile_similarity f (snd kp) \<le> profile_similarity f p'"
        by blast
      have d': "x # xs = (x # pre) @ (k', p') # post" using d by simp
      have pre': "\<forall>kp\<in>set (x # pre). eligible now thr ex f (snd kp) \<longrightarrow>
                   profile_similarity f (snd kp) < profile_similarity f p'"
        using pre e(2) by (auto simp: x)
      have r': "find_matching_loop now thr ex f (x # xs) b bs = Some k'"
        unfolding x take by (rule r)
      have gt': "bs < profile_similarity f p'" using gt e(2) by simp
      from d' r' e(1) gt' pre' post have "?B (x # xs) b bs" by blast
      then show ?thesis ..
    qed
  qed
qed


lemma find_matching_entity_cases:
  "(find_matching_entity m now f = None \<and>
    (\<forall>kp\<in>set (entities m). \<not> qualifies m now f (snd kp))) \<or>
   (\<exists>pre k p post. entities m = pre @ (k, p) # post \<and>
      find_matching_entity m now f = Some k \<and> qualifies m now f p \<and>
      (\<forall>kp\<in>set pre. qualifies m now f (snd kp) \<longrightarrow>
         profile_similarity f (snd kp) < profile_similarity f p) \<and>
      (\<forall>kp\<in>set post. qualifies m now f (snd kp) \<longrightarrow>
         profile_similarity f (snd kp) \<le> profile_similarity f p))"
  using find_matching_loop_cases
    [of now "similarity_threshold m" "expiry_days m" f "entities m" None 0]
  unfolding find_matching_entity_def qualifies_def
  by (elim disjE exE conjE) (force, blast)

lemma two_splits:
  "pre @ a # post = pre' @ b # post' \<Longrightarrow>
   (pre = pre' \<and> a = b \<and> post = post') \<or> (a \<in> set pre' \<and> b \<in> set post) \<or>
   (a \<in> set post' \<and> b \<in> set pre)"
  by (auto simp: append_eq_append_conv2 append_eq_Cons_conv Cons_eq_append_conv)

lemma map_entry_distinct:
  "distinct (map fst (pre @ (k, p) # post)) \<Longrightarrow>
   map (\<lambda>(k', q). if k' = k then (k', g q) else (k', q)) (pre @ (k, p) # post) =
   pre @ (k, g p) # post"
proof -
  assume d: "distinct (map fst (pre @ (k, p) # post))"
  have "map (\<lambda>(k', q). if k' = k then (k', g q) else (k', q)) xs = xs"
    if "k \<notin> fst ` set xs" for xs :: "('a \<times> 'b) list"
    using that by (induction xs) auto
  with d show ?thesis by auto
qed

lemma update_with_features:
  "typical_features p = Some tf \<Longrightarrow>
   update now p features =
     p\<lparr>last_seen := now, observation_count := observation_count p + 1,
       confidence := min 1 (real_of_int (observation_count p + 1) / 10),
       typical_features :=
         Some (tf\<lparr>movement_speed :=
                     3 / 10 * movement_speed features + (1 - 3 / 10) * movement_speed tf,
                   height_estimate :=
                     3 / 10 * height_estimate features + (1 - 3 / 10) * height_estimate tf\<rparr>)\<rparr>"
  by (simp add: update_def to_vector_def Let_def)

lemma dict_set_fresh: "k \<notin> set (dict_keys d) \<Longrightarrow> dict_set k v d = d @ [(k, v)]"
  by (induction d) (auto simp: dict_keys_def)

lemma detect_entity_none:
  assumes "\<forall>kp\<in>set (entities m). \<not> qualifies m now f (snd kp)"
  shows "detect_entity m now tok f = register_new_entity m now tok f"
proof -
  from find_matching_entity_cases [of m now f] assms
  have "find_matching_entity m now f = None" by fastforce
  then show ?thesis by (simp add: detect_entity_def)
qed

lemma detect_entity_best:
  assumes dist: "distinct (dict_keys (entities m))"
    and ne: "[] \<notin> set (dict_keys (entities m))"
    and dec: "entities m = pre @ (k, p) # post"
    and q: "qualifies m now f p"
    and pre: "\<forall>kp\<in>set pre. qualifies m now f (snd kp) \<longrightarrow>
               profile_similarity f (snd kp) < profile_similarity f p"
    and post: "\<forall>kp\<in>set post. qualifies m now f (snd kp) \<longrightarrow>
               profile_similarity f (snd kp) \<le> profile_similarity f p"
  shows "detect_entity m now tok f =
         (m\<lparr>entities := pre @ (k, update now p f) # post\<rparr>, k, False)"
proof -
  have inm: "(k, p) \<in> set (entities m)" using dec by simp
  from find_matching_entity_cases [of m now f] q inm
  obtain pre' k' p' post' where
    dec': "entities m = pre' @ (k', p') # post'"
    and r: "find_matching_entity m now f = Some k'"
    and q': "qualifies m now f p'"
    and pre': "\<forall>kp\<in>set pre'. qualifies m now f (snd kp) \<longrightarrow>
               profile_similarity f (snd kp) < profile_similarity f p'"
    and post': "\<forall>kp\<in>set post'. qualifies m now f (snd kp) \<longrightarrow>
               profile_similarity f (snd kp) \<le> profile_similarity f p'"
    by fastforce
  from dec dec' have "pre @ (k, p) # post = pre' @ (k', p') # post'" by simp
  from two_splits [OF this] have same: "pre = pre' \<and> (k, p) = (k', p') \<and> post = post'"
  proof (elim disjE)
    assume "(k, p) \<in> set pre' \<and> (k', p') \<in> set post"
    with pre' post q q' have "profile_similarity f p < profile_similarity f p'"
      "profile_similarity f p' \<le> profile_similarity f p" by force+
    then show ?thesis by simp
  next
    assume "(k, p) \<in> set post' \<and> (k', p') \<in> set pre"
    with pre post' q q' have "profile_similarity f p' < profile_similarity f p"
      "profile_similarity f p \<le> profile_similarity f p'" by force+
    then show ?thesis by simp
  qed
  then have r': "find_matching_entity m now f = Some k" using r by simp
  have kne: "k \<noteq> []" using ne dec by (auto simp: dict_keys_def)
  have d': "distinct (map fst (pre @ (k, p) # post))"
    using dist dec by (simp add: dict_keys_def)
  show ?thesis
    unfolding detect_entity_def r' using kne
    by (simp add: dec map_entry_distinct [OF d', of "\<lambda>q. update now q f"] del: map_append)
qed


lemma similarity_similar_demo: "calculate_similarity similar_features demo_features = 99 / 100"
proof -
  have "sqrt (1 / 100) = 1 / 10"
    by (rule real_sqrt_unique) (simp_all add: power2_eq_square)
  then show ?thesis
    by (simp add: calculate_similarity_def linalg_norm_def to_vector_def weights_def
        similar_features_def demo_features_def power2_eq_square)
qed

lemma similarity_far_demo: "calculate_similarity far_features demo_features = 0"
proof -
  have "sqrt 100 = 10"
    by (rule real_sqrt_unique) (simp_all add: power2_eq_square)
  then show ?thesis
    by (simp add: calculate_similarity_def linalg_norm_def to_vector_def weights_def
        far_features_def demo_features_def power2_eq_square)
qed

lemma same_apart_from_speed_height_refl: "same_apart_from_speed_height q q"
  by (simp add: same_apart_from_speed_height_def split: option.splits)

lemma map_of_replaced_entry:
  "k \<notin> fst ` set pre \<Longrightarrow> map_of (pre @ (k, u) # post) k = Some u"
  by (induction pre) auto

lemma map_of_other_entry:
  "k' \<noteq> k \<Longrightarrow> map_of (pre @ (k, u) # post) k' = map_of (pre @ (k, p) # post) k'"
  by (induction pre) auto

text \<open>
  C6, as the code has it. A profile qualifies when it is not expired, has typical
  features, and its similarity to the record exceeds both the threshold and 0 (the
  initial \<open>best_similarity\<close>; for a threshold of at least 0 the second follows from
  the first). On a registry with distinct, non-empty ids: if no profile qualifies,
  \<open>detect_entity\<close> stores a new profile with observation count 1 and confidence 0.1
  under the generated id (appended when that id is not in use) and returns the id and
  \<open>True\<close>. If a profile qualifies, with every qualifying profile before it strictly
  less similar and every one after it at most as similar (the first of the most similar
  ones), \<open>detect_entity\<close> returns that id and \<open>False\<close>; afterwards the ids and
  their order and the configuration are as before, and that profile has last seen now,
  count plus one, confidence \<open>min(1, count / 10)\<close>, movement speed and height estimate
  of its typical features moved by the learning rate 0.3, all else as before. Every other
  profile keeps its id, timestamps, count, confidence and the categorical components of
  its typical features; nothing is stated about the movement speed and height estimate
  of the other profiles. One of the two cases always holds.
\<close>

theorem detect_entity_selects_best_match:
  assumes "distinct (dict_keys (entities m))" and "[] \<notin> set (dict_keys (entities m))"
  shows
  "((\<forall>kp\<in>set (entities m). \<not> qualifies m now features (snd kp)) \<longrightarrow>
      detect_entity m now token_hex features =
        (m\<lparr>entities := dict_set (generate_entity_id token_hex)
                          (new_profile (generate_entity_id token_hex) now features)
                          (entities m)\<rparr>,
         generate_entity_id token_hex, True) \<and>
      observation_count (new_profile (generate_entity_id token_hex) now features) = 1 \<and>
      confidence (new_profile (generate_entity_id token_hex) now features) = 1 / 10 \<and>
      (generate_entity_id token_hex \<notin> set (dict_keys (entities m)) \<longrightarrow>
         dict_set (generate_entity_id token_hex)
           (new_profile (generate_entity_id token_hex) now features) (entities m) =
         entities m @ [(generate_entity_id token_hex,
                        new_profile (generate_entity_id token_hex) now features)])) \<and>
   (\<forall>pre k p tf post.
      entities m = pre @ (k, p) # post \<and> qualifies m now features p \<and>
      typical_features p = Some tf \<and>
      (\<forall>kp\<in>set pre. qualifies m now features (snd kp) \<longrightarrow>
         profile_similarity features (snd kp) < profile_similarity features p) \<and>
      (\<forall>kp\<in>set post. qualifies m now features (snd kp) \<longrightarrow>
         profile_similarity features (snd kp) \<le> profile_similarity features p) \<longrightarrow>
      (\<exists>m'. detect_entity m now token_hex features = (m', k, False) \<and>
         similarity_threshold m' = similarity_threshold m \<and>
         expiry_days m' = expiry_days m \<and>
         dict_keys (entities m') = dict_keys (entities m) \<and>
         get_entity_info m' k =
           Some (p\<lparr>last_seen := now, observation_count := observation_count p + 1,
                   confidence := min 1 (real_of_int (observation_count p + 1) / 10),
                   typical_features :=
                     Some (tf\<lparr>movement_speed :=
                                 3 / 10 * movement_speed features
                                 + (1 - 3 / 10) * movement_speed tf,
                               height_estimate :=
                                 3 / 10 * height_estimate features
                                 + (1 - 3 / 10) * height_estimate tf\<rparr>)\<rparr>) \<and>
         (\<forall>k' q. k' \<noteq> k \<and> get_entity_info m k' = Some q \<longrightarrow>
            (\<exists>q'. get_entity_info m' k' = Some q' \<and> same_apart_from_speed_height q q')))) \<and>
   ((\<forall>kp\<in>set (entities m). \<not> qualifies m now features (snd kp)) \<or>
    (\<exists>pre k p post. entities m = pre @ (k, p) # post \<and> qualifies m now features p \<and>
       (\<forall>kp\<in>set pre. qualifies m now features (snd kp) \<longrightarrow>
          profile_similarity features (snd kp) < profile_similarity features p) \<and>
       (\<forall>kp\<in>set post. qualifies m now features (snd kp) \<longrightarrow>
          profile_similarity features (snd kp) \<le> profile_similarity features p))) \<and>
   (\<forall>p. qualifies m now features p \<longleftrightarrow>
      \<not> is_expired now p (expiry_days m) \<and>
      (\<exists>tf. typical_features p = Some tf \<and>
         profile_similarity features p = calculate_similarity features tf \<and>
         calculate_similarity features tf > similarity_threshold m \<and>
         calculate_similarity features tf > 0))"
proof -
  let ?eid = "generate_entity_id token_hex"
  let ?np = "new_profile ?eid now features"
  have new: "detect_entity m now token_hex features =
        (m\<lparr>entities := dict_set ?eid ?np (entities m)\<rparr>, ?eid, True) \<and>
      observation_count ?np = 1 \<and> confidence ?np = 1 / 10 \<and>
      (?eid \<notin> set (dict_keys (entities m)) \<longrightarrow>
         dict_set ?eid ?np (entities m) = entities m @ [(?eid, ?np)])"
    if "\<forall>kp\<in>set (entities m). \<not> qualifies m now features (snd kp)"
    using detect_entity_none [OF that, of token_hex] dict_set_fresh [of ?eid "entities m" ?np]
    by (simp add: register_new_entity_def Let_def new_profile_def)
  have best: "\<exists>m'. detect_entity m now token_hex features = (m', k, False) \<and>
         similarity_threshold m' = similarity_threshold m \<and>
         expiry_days m' = expiry_days m \<and>
         dict_keys (entities m') = dict_keys (entities m) \<and>
         get_entity_info m' k =
           Some (p\<lparr>last_seen := now, observation_count := observation_count p + 1,
                   confidence := min 1 (real_of_int (observation_count p + 1) / 10),
                   typical_features :=
                     Some (tf\<lparr>movement_speed :=
                                 3 / 10 * movement_speed features
                                 + (1 - 3 / 10) * movement_speed tf,
                               height_estimate :=
                                 3 / 10 * height_estimate features
                                 + (1 - 3 / 10) * height_estimate tf\<rparr>)\<rparr>) \<and>
         (\<forall>k' q. k' \<noteq> k \<and> get_entity_info m k' = Some q \<longrightarrow>
            (\<exists>q'. get_entity_info m' k' = Some q' \<and> same_apart_from_speed_height q q'))"
    if h: "entities m = pre @ (k, p) # post \<and> qualifies m now features p \<and>
      typical_features p = Some tf \<and>
      (\<forall>kp\<in>set pre. qualifies m now features (snd kp) \<longrightarrow>
         profile_similarity features (snd kp) < profile_similarity features p) \<and>
      (\<forall>kp\<in>set post. qualifies m now features (snd kp) \<longrightarrow>
         profile_similarity features (snd kp) \<le> profile_similarity features p)"
    for pre k p tf post
  proof -
    let ?m' = "m\<lparr>entities := pre @ (k, update now p features) # post\<rparr>"
    from h have tf: "typical_features p = Some tf" and dec: "entities m = pre @ (k, p) # post"
      by blast+
    from h have r: "detect_entity m now token_hex features = (?m', k, False)"
      by (intro detect_entity_best [OF assms]) blast+
    have notin: "k \<notin> fst ` set pre"
      using assms(1) dec by (auto simp: dict_keys_def)
    have keys: "dict_keys (entities ?m') = dict_keys (entities m)"
      by (simp add: dec dict_keys_def)
    have at_k: "get_entity_info ?m' k = Some (update now p features)"
      by (simp add: get_entity_info_def map_of_replaced_entry [OF notin] del: map_of_append)
    have others: "\<forall>k' q. k' \<noteq> k \<and> get_entity_info m k' = Some q \<longrightarrow>
            (\<exists>q'. get_entity_info ?m' k' = Some q' \<and> same_apart_from_speed_height q q')"
      using map_of_other_entry [of _ k pre "update now p features" post p]
      by (auto simp: get_entity_info_def dec same_apart_from_speed_height_refl
          simp del: map_of_append)
    have "\<exists>m'. detect_entity m now token_hex features = (m', k, False) \<and>
         similarity_threshold m' = similarity_threshold m \<and>
         expiry_days m' = expiry_days m \<and>
         dict_keys (entities m') = dict_keys (entities m) \<and>
         get_entity_info m' k = Some (update now p features) \<and>
         (\<forall>k' q. k' \<noteq> k \<and> get_entity_info m k' = Some q \<longrightarrow>
            (\<exists>q'. get_entity_info m' k' = Some q' \<and> same_apart_from_speed_height q q'))"
      apply (rule exI [of _ ?m'])
      apply (insert r keys at_k others)
      apply (intro conjI; (assumption | simp))
      done
    then show ?thesis unfolding update_with_features [OF tf] .
  qed
  have cases: "(\<forall>kp\<in>set (entities m). \<not> qualifies m now features (snd kp)) \<or>
    (\<exists>pre k p post. entities m = pre @ (k, p) # post \<and> qualifies m now features p \<and>
       (\<forall>kp\<in>set pre. qualifies m now features (snd kp) \<longrightarrow>
          profile_similarity features (snd kp) < profile_similarity features p) \<and>
       (\<forall>kp\<in>set post. qualifies m now features (snd kp) \<longrightarrow>
          profile_similarity features (snd kp) \<le> profile_similarity features p))"
    using find_matching_entity_cases [of m now features] by blast
  have unfold: "\<forall>p. qualifies m now features p \<longleftrightarrow>
      \<not> is_expired now p (expiry_days m) \<and>
      (\<exists>tf. typical_features p = Some tf \<and>
         profile_similarity features p = calculate_similarity features tf \<and>
         calculate_similarity features tf > similarity_threshold m \<and>
         calculate_similarity features tf > 0)"
    by (auto simp: qualifies_def eligible_def profile_similarity_def)
  from new best cases unfold show ?thesis by blast
qed


text \<open>
  The theorem on the registry of two equally similar profiles (the first one is updated)
  and on the empty registry (a profile is created).
\<close>

theorem detect_entity_selects_best_match_witness:
  "distinct (dict_keys (entities two_profiles)) \<and> [] \<notin> set (dict_keys (entities two_profiles)) \<and>
   (\<exists>m'. detect_entity two_profiles (days 30) ''0123456789abcdef0123456789abcdef''
            similar_features = (m', ''old_entity'', False) \<and>
      dict_keys (entities m') = [''old_entity'', ''recent_entity''] \<and>
      get_entity_info m' ''old_entity'' =
        Some \<lparr>entity_id = ''old_entity'', first_observed = 0, last_seen = days 30,
              observation_count = 2,
              typical_features = Some (demo_features\<lparr>movement_speed := 237 / 200\<rparr>),
              confidence = 1 / 5\<rparr> \<and>
      (\<exists>q'. get_entity_info m' ''recent_entity'' = Some q' \<and>
         same_apart_from_speed_height
           (new_profile ''recent_entity'' (days 30) demo_features) q')) \<and>
   detect_entity (init_manager (17 / 20) 30) 0 ''0123456789abcdef0123456789abcdef'' demo_features =
     ((init_manager (17 / 20) 30)
        \<lparr>entities := [(''entity_0123456789abcdef0123456789abcdef'',
                       new_profile ''entity_0123456789abcdef0123456789abcdef'' 0 demo_features)]\<rparr>,
      ''entity_0123456789abcdef0123456789abcdef'', True)"
proof -
  let ?old = "new_profile ''old_entity'' 0 demo_features"
  let ?recent = "new_profile ''recent_entity'' (days 30) demo_features"
  let ?tok = "''0123456789abcdef0123456789abcdef''"
  have d: "distinct (dict_keys (entities two_profiles))"
    and ne: "[] \<notin> set (dict_keys (entities two_profiles))"
    by (simp_all add: two_profiles_def dict_keys_def)
  have sim: "profile_similarity similar_features ?old = 99 / 100"
    "profile_similarity similar_features ?recent = 99 / 100"
    by (simp_all add: profile_similarity_def new_profile_def similarity_similar_demo)
  have q: "qualifies two_profiles (days 30) similar_features ?old"
    unfolding qualifies_def eligible_def sim
    by (simp add: two_profiles_def is_expired_def timedelta_days_def days_def new_profile_def)
  have h: "entities two_profiles = [] @ (''old_entity'', ?old) # [(''recent_entity'', ?recent)] \<and>
      qualifies two_profiles (days 30) similar_features ?old \<and>
      typical_features ?old = Some demo_features \<and>
      (\<forall>kp\<in>set []. qualifies two_profiles (days 30) similar_features (snd kp) \<longrightarrow>
         profile_similarity similar_features (snd kp) < profile_similarity similar_features ?old) \<and>
      (\<forall>kp\<in>set [(''recent_entity'', ?recent)].
         qualifies two_profiles (days 30) similar_features (snd kp) \<longrightarrow>
         profile_similarity similar_features (snd kp) \<le> profile_similarity similar_features ?old)"
    using q by (simp add: sim) (simp add: two_profiles_def new_profile_def)
  from detect_entity_selects_best_match [OF d ne, of "days 30" similar_features ?tok,
        THEN conjunct2, THEN conjunct1, THEN spec, THEN spec, THEN spec, THEN spec, THEN spec,
        THEN mp, OF h]
  obtain m' where
    r: "detect_entity two_profiles (days 30) ?tok similar_features = (m', ''old_entity'', False)"
    and keys: "dict_keys (entities m') = dict_keys (entities two_profiles)"
    and at_k: "get_entity_info m' ''old_entity'' =
           Some (?old\<lparr>last_seen := days 30, observation_count := observation_count ?old + 1,
                   confidence := min 1 (real_of_int (observation_count ?old + 1) / 10),
                   typical_features :=
                     Some (demo_features\<lparr>movement_speed :=
                                 3 / 10 * movement_speed similar_features
                                 + (1 - 3 / 10) * movement_speed demo_features,
                               height_estimate :=
                                 3 / 10 * height_estimate similar_features
                                 + (1 - 3 / 10) * height_estimate demo_features\<rparr>)\<rparr>)"
    and others: "\<forall>k' q. k' \<noteq> ''old_entity'' \<and> get_entity_info two_profiles k' = Some q \<longrightarrow>
            (\<exists>q'. get_entity_info m' k' = Some q' \<and> same_apart_from_speed_height q q')"
    by blast
  have keys': "dict_keys (entities m') = [''old_entity'', ''recent_entity'']"
    using keys by (simp add: two_profiles_def dict_keys_def)
  have at_k': "get_entity_info m' ''old_entity'' =
        Some \<lparr>entity_id = ''old_entity'', first_observed = 0, last_seen = days 30,
              observation_count = 2,
              typical_features = Some (demo_features\<lparr>movement_speed := 237 / 200\<rparr>),
              confidence = 1 / 5\<rparr>"
    using at_k by (simp add: new_profile_def similar_features_def demo_features_def)
  have rec: "''recent_entity'' \<noteq> ''old_entity'' \<and>
     get_entity_info two_profiles ''recent_entity'' = Some ?recent"
    by (simp add: get_entity_info_def two_profiles_def)
  from others [THEN spec, THEN spec, THEN mp, OF rec]
  have oth: "\<exists>q'. get_entity_info m' ''recent_entity'' = Some q' \<and>
         same_apart_from_speed_height ?recent q'" .
  have one: "\<exists>m'. detect_entity two_profiles (days 30) ?tok similar_features
            = (m', ''old_entity'', False) \<and>
      dict_keys (entities m') = [''old_entity'', ''recent_entity''] \<and>
      get_entity_info m' ''old_entity'' =
        Some \<lparr>entity_id = ''old_entity'', first_observed = 0, last_seen = days 30,
              observation_count = 2,
              typical_features = Some (demo_features\<lparr>movement_speed := 237 / 200\<rparr>),
              confidence = 1 / 5\<rparr> \<and>
      (\<exists>q'. get_entity_info m' ''recent_entity'' = Some q' \<and>
         same_apart_from_speed_height ?recent q')"
    apply (rule exI [of _ m'])
    apply (insert r keys' at_k' oth)
    apply (intro conjI; assumption)
    done
  have d0: "distinct (dict_keys (entities (init_manager (17 / 20) 30)))"
    and ne0: "[] \<notin> set (dict_keys (entities (init_manager (17 / 20) 30)))"
    by (simp_all add: init_manager_def dict_keys_def)
  have h0: "\<forall>kp\<in>set (entities (init_manager (17 / 20) 30)).
      \<not> qualifies (init_manager (17 / 20) 30) 0 demo_features (snd kp)"
    by (simp add: init_manager_def)
  have two: "detect_entity (init_manager (17 / 20) 30) 0 ?tok demo_features =
     ((init_manager (17 / 20) 30)
        \<lparr>entities := [(''entity_0123456789abcdef0123456789abcdef'',
                       new_profile ''entity_0123456789abcdef0123456789abcdef'' 0 demo_features)]\<rparr>,
      ''entity_0123456789abcdef0123456789abcdef'', True)"
    using detect_entity_selects_best_match [OF d0 ne0, of 0 demo_features ?tok,
        THEN conjunct1, THEN mp, OF h0]
    by (simp add: generate_entity_id_def init_manager_def)
  from d ne one two show ?thesis by blast
qed

text \<open>
  C6 as stated fails for a negative threshold: the stored profile is not expired and its
  similarity 0 exceeds the threshold -0.5, yet a new entity is reported.
\<close>

theorem detect_entity_threshold_counterexample:
  "\<not> is_expired 0 (new_profile ''old_entity'' 0 demo_features) (expiry_days lenient_registry) \<and>
   calculate_similarity far_features demo_features = 0 \<and>
   calculate_similarity far_features demo_features > similarity_threshold lenient_registry \<and>
   snd (detect_entity lenient_registry 0 ''0123456789abcdef0123456789abcdef'' far_features) =
     (''entity_0123456789abcdef0123456789abcdef'', True)"
  by (simp add: similarity_far_demo lenient_registry_def is_expired_def timedelta_days_def
      new_profile_def detect_entity_def find_matching_entity_def register_new_entity_def
      generate_entity_id_def Let_def)

section \<open>Identity registry: observation counts and confidence\<close>

lemma detect_entity_cases:
  "detect_entity m now tok f = register_new_entity m now tok f \<or>
   (\<exists>k. k \<noteq> [] \<and>
      detect_entity m now tok f =
        (m\<lparr>entities := map (\<lambda>(k', q). if k' = k then (k', update now q f) else (k', q))
                          (entities m)\<rparr>, k, False))"
  by (auto simp: detect_entity_def split: option.splits)

lemma map_of_map_entry:
  "map_of (map (\<lambda>(k', q). if k' = k then (k', g q) else (k', q)) d) e =
   (if e = k then map_option g (map_of d e) else map_of d e)"
  by (induction d) auto

lemma update_count_confidence:
  "observation_count (update now p f) = observation_count p + 1"
  "confidence (update now p f) = min 1 (real_of_int (observation_count p + 1) / 10)"
  by (simp_all add: update_def Let_def split: option.splits)

lemma detect_entity_matched:
  assumes "snd (detect_entity m now tok f) = (eid, False)"
  shows "get_entity_info (fst (detect_entity m now tok f)) e =
         (if e = eid then map_option (\<lambda>q. update now q f) (get_entity_info m e)
          else get_entity_info m e)"
  using detect_entity_cases [of m now tok f] assms
  by (auto simp: register_new_entity_def Let_def get_entity_info_def map_of_map_entry)

lemma detect_entity_created:
  assumes "snd (detect_entity m now tok f) = (eid, True)"
  shows "get_entity_info (fst (detect_entity m now tok f)) eid = Some (new_profile eid now f)"
  using detect_entity_cases [of m now tok f] assms
  by (auto simp: register_new_entity_def Let_def get_entity_info_def map_of_dict_set)

lemma detect_all_matched:
  "get_entity_info m eid = Some p \<Longrightarrow>
   snd (detect_all m obs) = replicate (length obs) (eid, False) \<Longrightarrow>
   \<exists>p'. get_entity_info (fst (detect_all m obs)) eid = Some p' \<and>
     observation_count p' = observation_count p + int (length obs) \<and>
     (obs \<noteq> [] \<longrightarrow>
        confidence p' = min 1 (real_of_int (observation_count p + int (length obs)) / 10)) \<and>
     (obs = [] \<longrightarrow> p' = p)"
proof (induction obs arbitrary: m p)
  case Nil
  then show ?case by simp
next
  case (Cons ob obs)
  obtain now tok f where ob: "ob = (now, tok, f)" by (cases ob)
  obtain m1 r where step: "detect_entity m now tok f = (m1, r)" by (cases "detect_entity m now tok f")
  obtain m2 rs where rest: "detect_all m1 obs = (m2, rs)" by (cases "detect_all m1 obs")
  from Cons.prems(2) have r: "r = (eid, False)" and rs: "rs = replicate (length obs) (eid, False)"
    by (simp_all add: ob step rest)
  have "snd (detect_entity m now tok f) = (eid, False)" using step r by simp
  from detect_entity_matched [OF this, of eid] Cons.prems(1) step
  have p1: "get_entity_info m1 eid = Some (update now p f)" by simp
  have rs': "snd (detect_all m1 obs) = replicate (length obs) (eid, False)"
    using rest rs by simp
  from Cons.IH [OF p1 rs'] obtain p' where
    p': "get_entity_info m2 eid = Some p'"
    "observation_count p' = observation_count (update now p f) + int (length obs)"
    "obs \<noteq> [] \<longrightarrow>
       confidence p' = min 1 (real_of_int (observation_count (update now p f) + int (length obs)) / 10)"
    "obs = [] \<longrightarrow> p' = update now p f"
    using rest by auto
  have fin: "fst (detect_all m (ob # obs)) = m2" by (simp add: ob step rest)
  have cnt: "observation_count p' = observation_count p + int (length (ob # obs))"
    using p'(2) by (simp add: update_count_confidence)
  have conf: "confidence p' = min 1 (real_of_int (observation_count p + int (length (ob # obs))) / 10)"
  proof (cases "obs = []")
    case True
    with p'(4) show ?thesis by (simp add: update_count_confidence)
  next
    case False
    have "observation_count (update now p f) + int (length obs) =
          observation_count p + int (length (ob # obs))"
      by (simp add: update_count_confidence)
    with p'(3) False show ?thesis by metis
  qed
  from p'(1) cnt conf show ?case unfolding fin by simp
qed

lemma confidence_inv_detect_entity:
  assumes "confidence_inv m"
  shows "confidence_inv (fst (detect_entity m now tok f))"
proof -
  from detect_entity_cases [of m now tok f] show ?thesis
  proof
    assume "detect_entity m now tok f = register_new_entity m now tok f"
    then show ?thesis
      using assms set_dict_set [of "generate_entity_id tok"
          "new_profile (generate_entity_id tok) now f" "entities m"]
      by (auto simp: register_new_entity_def Let_def confidence_inv_def list_all_iff
          new_profile_def)
  next
    assume "\<exists>k. k \<noteq> [] \<and>
      detect_entity m now tok f =
        (m\<lparr>entities := map (\<lambda>(k', q). if k' = k then (k', update now q f) else (k', q))
                          (entities m)\<rparr>, k, False)"
    then obtain k where
      "detect_entity m now tok f =
        (m\<lparr>entities := map (\<lambda>(k', q). if k' = k then (k', update now q f) else (k', q))
                          (entities m)\<rparr>, k, False)" by blast
    then have
      e: "entities (fst (detect_entity m now tok f)) =
          map (\<lambda>(k', q). if k' = k then (k', update now q f) else (k', q)) (entities m)"
      by simp
    have "confidence (snd kp') = min 1 (real_of_int (observation_count (snd kp')) / 10)"
      if "kp' \<in> set (map (\<lambda>(k', q). if k' = k then (k', update now q f) else (k', q))
                        (entities m))" for kp'
    proof -
      from that obtain k' q where kq: "(k', q) \<in> set (entities m)"
        and kp': "kp' = (if k' = k then (k', update now q f) else (k', q))" by auto
      from assms kq have "confidence q = min 1 (real_of_int (observation_count q) / 10)"
        unfolding confidence_inv_def list_all_iff by force
      then show ?thesis unfolding kp' by (simp add: update_count_confidence)
    qed
    then show ?thesis unfolding confidence_inv_def list_all_iff e by blast
  qed
qed

lemma confidence_inv_cleanup:
  assumes "confidence_inv m"
  shows "confidence_inv (fst (cleanup_expired_entities m now))"
  using assms
  by (auto simp: cleanup_expired_entities_def Let_def fold_dict_del confidence_inv_def
      list_all_iff)

lemma confidence_inv_init: "confidence_inv (init_manager thr ex)"
  by (simp add: confidence_inv_def init_manager_def)

lemma detect_entity_count_mono:
  assumes "generate_entity_id tok \<noteq> eid" "get_entity_info m eid = Some p"
  shows "\<exists>p'. get_entity_info (fst (detect_entity m now tok f)) eid = Some p' \<and>
           (p' = p \<or> p' = update now p f)"
proof -
  from detect_entity_cases [of m now tok f] show ?thesis
  proof
    assume "detect_entity m now tok f = register_new_entity m now tok f"
    then show ?thesis using assms
      by (simp add: register_new_entity_def Let_def get_entity_info_def map_of_dict_set)
  next
    assume "\<exists>k. k \<noteq> [] \<and>
      detect_entity m now tok f =
        (m\<lparr>entities := map (\<lambda>(k', q). if k' = k then (k', update now q f) else (k', q))
                          (entities m)\<rparr>, k, False)"
    then show ?thesis using assms
      by (auto simp: get_entity_info_def map_of_map_entry)
  qed
qed


lemma cleanup_keeps_profile:
  assumes "distinct (dict_keys (entities m))" "get_entity_info m eid = Some p"
    "get_entity_info (fst (cleanup_expired_entities m now)) eid = Some p'"
  shows "p' = p"
proof -
  from assms(1) have d': "distinct (map fst (entities m))" by (simp add: dict_keys_def)
  have "fold dict_del
          (map fst (filter (\<lambda>(k, q). is_expired now q (expiry_days m)) (entities m)))
          (entities m) =
        filter (\<lambda>kv. \<not> (case kv of (k, q) \<Rightarrow> is_expired now q (expiry_days m))) (entities m)"
    unfolding fold_dict_del by (rule filter_keys_distinct [OF d'])
  with assms(2,3) show ?thesis
    by (simp add: cleanup_expired_entities_def get_entity_info_def Let_def
        map_of_filter_distinct [OF d'] split: if_splits)
qed

lemma min_conf_mono:
  "a \<le> b \<Longrightarrow> min 1 (real_of_int a / 10) \<le> min 1 (real_of_int b / 10)"
  by (simp add: min_def)

lemmas detect_eval =
  detect_entity_def find_matching_entity_def register_new_entity_def generate_entity_id_def
  init_manager_def new_profile_def update_def is_expired_def timedelta_days_def
  calculate_similarity_def linalg_norm_def to_vector_def weights_def demo_features_def
  time_encoding_def zone_encoding_def pattern_encoding_def get_entity_info_def Let_def

text \<open>
  C8, as the code has it. The observation that creates a profile counts: a profile
  starts with observation count 1 and confidence 0.1, and each matched
  \<open>detect_entity\<close> adds one and sets the confidence to \<open>min(1, count / 10)\<close>. So
  after \<open>n\<close> consecutive matched observations a profile with count \<open>c\<close> has count
  \<open>c + n\<close> and (for \<open>n > 0\<close>) confidence \<open>min(1, (c + n) / 10)\<close>; after its
  creation and \<open>n\<close> matched observations that is count \<open>n + 1\<close> and confidence
  \<open>min(1, (n + 1) / 10)\<close>. The invariant \<open>confidence = min(1, count / 10)\<close> holds in
  the new registry and is kept by \<open>detect_entity\<close> and \<open>cleanup_expired_entities\<close>.
  A \<open>detect_entity\<close> whose generated id is not the profile's never lowers its count
  or (under the invariant) its confidence, and a cleanup leaves a surviving profile as
  it was.
\<close>

theorem confidence_follows_observation_count:
  "(\<forall>p. get_entity_info m eid = Some p \<and> obs \<noteq> [] \<and>
        snd (detect_all m obs) = replicate (length obs) (eid, False) \<longrightarrow>
      (\<exists>p'. get_entity_info (fst (detect_all m obs)) eid = Some p' \<and>
         observation_count p' = observation_count p + int (length obs) \<and>
         confidence p' = min 1 (real_of_int (observation_count p + int (length obs)) / 10))) \<and>
   (snd (detect_entity m now token_hex features) = (eid, True) \<and>
    snd (detect_all (fst (detect_entity m now token_hex features)) obs)
      = replicate (length obs) (eid, False) \<longrightarrow>
      (\<exists>p'. get_entity_info
               (fst (detect_all (fst (detect_entity m now token_hex features)) obs)) eid
             = Some p' \<and>
         observation_count p' = int (length obs) + 1 \<and>
         confidence p' = min 1 (real_of_int (int (length obs) + 1) / 10))) \<and>
   confidence_inv (init_manager thr ex) \<and>
   (confidence_inv m \<longrightarrow>
      confidence_inv (fst (detect_entity m now token_hex features)) \<and>
      confidence_inv (fst (cleanup_expired_entities m now))) \<and>
   (\<forall>p. generate_entity_id token_hex \<noteq> eid \<and> get_entity_info m eid = Some p \<longrightarrow>
      (\<exists>p'. get_entity_info (fst (detect_entity m now token_hex features)) eid = Some p' \<and>
         observation_count p \<le> observation_count p' \<and>
         (confidence p = min 1 (real_of_int (observation_count p) / 10) \<longrightarrow>
            confidence p \<le> confidence p'))) \<and>
   (\<forall>p p'. distinct (dict_keys (entities m)) \<and> get_entity_info m eid = Some p \<and>
        get_entity_info (fst (cleanup_expired_entities m now)) eid = Some p' \<longrightarrow> p' = p)"
proof -
  have matched: "\<forall>p. get_entity_info m eid = Some p \<and> obs \<noteq> [] \<and>
        snd (detect_all m obs) = replicate (length obs) (eid, False) \<longrightarrow>
      (\<exists>p'. get_entity_info (fst (detect_all m obs)) eid = Some p' \<and>
         observation_count p' = observation_count p + int (length obs) \<and>
         confidence p' = min 1 (real_of_int (observation_count p + int (length obs)) / 10))"
    using detect_all_matched [of m eid _ obs] by blast
  have created: "\<exists>p'. get_entity_info
               (fst (detect_all (fst (detect_entity m now token_hex features)) obs)) eid
             = Some p' \<and>
         observation_count p' = int (length obs) + 1 \<and>
         confidence p' = min 1 (real_of_int (int (length obs) + 1) / 10)"
    if h: "snd (detect_entity m now token_hex features) = (eid, True) \<and>
      snd (detect_all (fst (detect_entity m now token_hex features)) obs)
        = replicate (length obs) (eid, False)"
  proof -
    let ?m1 = "fst (detect_entity m now token_hex features)"
    from h have c: "get_entity_info ?m1 eid = Some (new_profile eid now features)"
      by (intro detect_entity_created) simp
    from h have r: "snd (detect_all ?m1 obs) = replicate (length obs) (eid, False)" by simp
    from detect_all_matched [OF c r] obtain p' where
      p': "get_entity_info (fst (detect_all ?m1 obs)) eid = Some p'"
      "observation_count p' = observation_count (new_profile eid now features) + int (length obs)"
      "obs \<noteq> [] \<longrightarrow> confidence p' =
         min 1 (real_of_int (observation_count (new_profile eid now features) + int (length obs)) / 10)"
      "obs = [] \<longrightarrow> p' = new_profile eid now features"
      by blast
    have cnt: "observation_count p' = int (length obs) + 1"
      using p'(2) by (simp add: new_profile_def)
    have conf: "confidence p' = min 1 (real_of_int (int (length obs) + 1) / 10)"
    proof (cases "obs = []")
      case True
      with p'(4) show ?thesis by (simp add: new_profile_def)
    next
      case False
      have "observation_count (new_profile eid now features) + int (length obs)
            = int (length obs) + 1" by (simp add: new_profile_def)
      with p'(3) False show ?thesis by metis
    qed
    from p'(1) cnt conf show ?thesis by blast
  qed
  have inv: "confidence_inv m \<longrightarrow>
      confidence_inv (fst (detect_entity m now token_hex features)) \<and>
      confidence_inv (fst (cleanup_expired_entities m now))"
    using confidence_inv_detect_entity confidence_inv_cleanup by blast
  have mono: "\<exists>p'. get_entity_info (fst (detect_entity m now token_hex features)) eid = Some p' \<and>
         observation_count p \<le> observation_count p' \<and>
         (confidence p = min 1 (real_of_int (observation_count p) / 10) \<longrightarrow>
            confidence p \<le> confidence p')"
    if h: "generate_entity_id token_hex \<noteq> eid \<and> get_entity_info m eid = Some p" for p
  proof -
    from h detect_entity_count_mono [of token_hex eid m p now features] obtain p' where
      g: "get_entity_info (fst (detect_entity m now token_hex features)) eid = Some p'"
      and c: "p' = p \<or> p' = update now p features" by blast
    from c have "observation_count p \<le> observation_count p' \<and>
         (confidence p = min 1 (real_of_int (observation_count p) / 10) \<longrightarrow>
            confidence p \<le> confidence p')"
    proof
      assume "p' = p" then show ?thesis by simp
    next
      assume u: "p' = update now p features"
      have "min 1 (real_of_int (observation_count p) / 10)
            \<le> min 1 (real_of_int (observation_count p + 1) / 10)"
        by (rule min_conf_mono) simp
      then show ?thesis unfolding u by (simp add: update_count_confidence)
    qed
    with g show ?thesis by blast
  qed
  have clean: "\<forall>p p'. distinct (dict_keys (entities m)) \<and> get_entity_info m eid = Some p \<and>
        get_entity_info (fst (cleanup_expired_entities m now)) eid = Some p' \<longrightarrow> p' = p"
    using cleanup_keeps_profile by blast
  from matched created confidence_inv_init inv mono clean show ?thesis by blast
qed


text \<open>The theorem on a new registry: one creating and two matched observations.\<close>

theorem confidence_follows_observation_count_witness:
  "snd (detect_entity (init_manager (17 / 20) 30) 0 ''0123456789abcdef0123456789abcdef''
          demo_features)
     = (''entity_0123456789abcdef0123456789abcdef'', True) \<and>
   snd (detect_all
          (fst (detect_entity (init_manager (17 / 20) 30) 0 ''0123456789abcdef0123456789abcdef''
                  demo_features))
          [(1, ''00000000000000000000000000000001'', demo_features),
           (2, ''00000000000000000000000000000002'', demo_features)])
     = replicate 2 (''entity_0123456789abcdef0123456789abcdef'', False) \<and>
   (\<exists>p'. get_entity_info
           (fst (detect_all
              (fst (detect_entity (init_manager (17 / 20) 30) 0
                      ''0123456789abcdef0123456789abcdef'' demo_features))
              [(1, ''00000000000000000000000000000001'', demo_features),
               (2, ''00000000000000000000000000000002'', demo_features)]))
           ''entity_0123456789abcdef0123456789abcdef'' = Some p' \<and>
      observation_count p' = 3 \<and> confidence p' = 3 / 10)"
proof -
  let ?m = "init_manager (17 / 20) 30"
  let ?tok = "''0123456789abcdef0123456789abcdef''"
  let ?eid = "''entity_0123456789abcdef0123456789abcdef''"
  let ?obs = "[(1, ''00000000000000000000000000000001'', demo_features),
               (2, ''00000000000000000000000000000002'', demo_features)]
              :: (int \<times> string \<times> BehavioralFeatures) list"
  have a: "snd (detect_entity ?m 0 ?tok demo_features) = (?eid, True)"
    by (simp add: detect_eval)
  have b: "snd (detect_all (fst (detect_entity ?m 0 ?tok demo_features)) ?obs)
           = replicate (length ?obs) (?eid, False)"
    by (simp add: detect_eval numeral_2_eq_2)
  have h: "snd (detect_entity ?m 0 ?tok demo_features) = (?eid, True) \<and>
     snd (detect_all (fst (detect_entity ?m 0 ?tok demo_features)) ?obs)
       = replicate (length ?obs) (?eid, False)"
    using a b by blast
  from confidence_follows_observation_count
         [of ?m ?eid ?obs 0 ?tok demo_features 0 0, THEN conjunct2, THEN conjunct1, THEN mp, OF h]
  have c: "\<exists>p'. get_entity_info
           (fst (detect_all (fst (detect_entity ?m 0 ?tok demo_features)) ?obs)) ?eid = Some p' \<and>
      observation_count p' = 3 \<and> confidence p' = 3 / 10"
    by simp
  have b': "snd (detect_all (fst (detect_entity ?m 0 ?tok demo_features)) ?obs)
           = replicate 2 (?eid, False)"
    using b by (simp add: numeral_2_eq_2)
  from a b' c show ?thesis by blast
qed

text \<open>
  C8 as stated fails: after the creating observation and one matched observation
  (\<open>n = 1\<close>) the confidence is 0.2, not \<open>min(1, 1 / 10)\<close>.
\<close>

theorem confidence_after_one_match_counterexample:
  "snd (detect_all (init_manager (17 / 20) 30)
          [(0, ''0123456789abcdef0123456789abcdef'', demo_features),
           (1, ''00000000000000000000000000000001'', demo_features)])
     = [(''entity_0123456789abcdef0123456789abcdef'', True),
        (''entity_0123456789abcdef0123456789abcdef'', False)] \<and>
   map_option confidence
     (get_entity_info
        (fst (detect_all (init_manager (17 / 20) 30)
                [(0, ''0123456789abcdef0123456789abcdef'', demo_features),
                 (1, ''00000000000000000000000000000001'', demo_features)]))
        ''entity_0123456789abcdef0123456789abcdef'')
     = Some (1 / 5) \<and>
   (1 / 5 :: real) \<noteq> min 1 (1 / 10)"
  by (simp add: detect_eval)

section \<open>Pattern memory: the effect of one observation\<close>

lemma sum_values_div:
  "sum_list (dict_values (map (\<lambda>(z, v). (z, v / t)) zf)) = sum_list (dict_values zf) / (t::real)"
  by (induction zf) (auto simp: dict_values_def add_divide_distrib)

lemma sum_values_mult:
  "sum_list (dict_values (map (\<lambda>(z, v). (z, v * d)) zf)) = sum_list (dict_values zf) * (d::real)"
  by (induction zf) (auto simp: dict_values_def distrib_right)

lemma update_spatial_pattern_Inr:
  assumes "update_spatial_pattern s zone speed = Inr s'"
  shows "sum_list (dict_values (bump_zone (zone_frequencies s) zone)) \<noteq> 0"
    and "zone_frequencies s' =
         map (\<lambda>(z, v). (z, v / sum_list (dict_values (bump_zone (zone_frequencies s) zone))))
           (bump_zone (zone_frequencies s) zone)"
  using assms
  by (auto simp: update_spatial_pattern_def bump_zone_def Let_def split: if_splits option.splits)

lemma update_spatial_pattern_total:
  assumes "sum_list (dict_values (bump_zone (zone_frequencies s) zone)) \<noteq> 0"
  shows "\<exists>s'. update_spatial_pattern s zone speed = Inr s'"
  using assms
  by (auto simp: update_spatial_pattern_def bump_zone_def Let_def split: option.splits)

lemma observe_activity_Inr:
  assumes "observe_activity m now a h dur z sp = Inr m'"
  shows "\<exists>s1. update_spatial_pattern (spatial (get_or_create m now a)) z sp = Inr s1 \<and>
           m' = \<lparr>patterns = map (\<lambda>(k, p). (k, decay_pattern (decay_factor m) p))
                    (dict_set a ((get_or_create m now a)
                       \<lparr>temporal := update_temporal_pattern now (temporal (get_or_create m now a)) h dur,
                        spatial := s1\<rparr>) (patterns m)),
                 decay_factor = decay_factor m,
                 total_observations = total_observations m + 1\<rparr>"
  using assms
  by (auto simp: observe_activity_def get_or_create_def apply_decay_def Let_def
           split: sum.splits)

lemma observe_activity_total:
  assumes "update_spatial_pattern (spatial (get_or_create m now a)) z sp = Inr s1"
  shows "\<exists>m'. observe_activity m now a h dur z sp = Inr m'"
  using assms
  by (auto simp: observe_activity_def get_or_create_def Let_def)

lemma observe_activity_other:
  assumes "observe_activity m now a h dur z sp = Inr m'" "b \<noteq> a"
  shows "map_of (patterns m') b = map_option (decay_pattern (decay_factor m)) (map_of (patterns m) b)"
proof -
  from observe_activity_Inr [OF assms(1)] obtain s1 where
    m': "m' = \<lparr>patterns = map (\<lambda>(k, p). (k, decay_pattern (decay_factor m) p))
                    (dict_set a ((get_or_create m now a)
                       \<lparr>temporal := update_temporal_pattern now (temporal (get_or_create m now a)) h dur,
                        spatial := s1\<rparr>) (patterns m)),
                 decay_factor = decay_factor m,
                 total_observations = total_observations m + 1\<rparr>" by blast
  show ?thesis using assms(2)
    by (simp add: m' map_of_map_values map_of_dict_set)
qed

lemma observe_activity_self:
  assumes "observe_activity m now a h dur z sp = Inr m'"
  shows "\<exists>s1. update_spatial_pattern (spatial (get_or_create m now a)) z sp = Inr s1 \<and>
          map_of (patterns m') a = Some (decay_pattern (decay_factor m)
            ((get_or_create m now a)
               \<lparr>temporal := update_temporal_pattern now (temporal (get_or_create m now a)) h dur,
                spatial := s1\<rparr>))"
proof -
  from observe_activity_Inr [OF assms(1)] obtain s1 where
    s1: "update_spatial_pattern (spatial (get_or_create m now a)) z sp = Inr s1" and
    m': "m' = \<lparr>patterns = map (\<lambda>(k, p). (k, decay_pattern (decay_factor m) p))
                    (dict_set a ((get_or_create m now a)
                       \<lparr>temporal := update_temporal_pattern now (temporal (get_or_create m now a)) h dur,
                        spatial := s1\<rparr>) (patterns m)),
                 decay_factor = decay_factor m,
                 total_observations = total_observations m + 1\<rparr>" by blast
  show ?thesis using s1
    by (simp add: m' map_of_map_values map_of_dict_set)
qed

lemma observe_activity_decay_factor:
  "observe_activity m now a h dur z sp = Inr m' \<Longrightarrow> decay_factor m' = decay_factor m"
  by (drule observe_activity_Inr) auto

lemma decay_pattern_fields:
  "observation_count_t (temporal (decay_pattern d p)) = observation_count_t (temporal p) * d"
  "pattern_stability (temporal (decay_pattern d p)) = pattern_stability (temporal p) * d"
  "zone_frequencies (spatial (decay_pattern d p)) =
     map (\<lambda>(z, v). (z, v * d)) (zone_frequencies (spatial p))"
  "active_hours_mean (temporal (decay_pattern d p)) = active_hours_mean (temporal p)"
  "active_hours_std (temporal (decay_pattern d p)) = active_hours_std (temporal p)"
  "typical_duration_mean (temporal (decay_pattern d p)) = typical_duration_mean (temporal p)"
  "typical_duration_std (temporal (decay_pattern d p)) = typical_duration_std (temporal p)"
  "movement_speed_mean (spatial (decay_pattern d p)) = movement_speed_mean (spatial p)"
  "movement_speed_std (spatial (decay_pattern d p)) = movement_speed_std (spatial p)"
  by (simp_all add: decay_pattern_def Let_def)

lemma observe_all_untouched:
  "observe_all m obs = Inr m' \<Longrightarrow> a \<notin> set (map (fst \<circ> snd) obs) \<Longrightarrow>
   map_of (patterns m) a = Some p \<Longrightarrow>
   \<exists>p'. map_of (patterns m') a = Some p' \<and> decay_factor m' = decay_factor m \<and>
     observation_count_t (temporal p') =
       observation_count_t (temporal p) * decay_factor m ^ length obs"
proof (induction obs arbitrary: m p)
  case Nil
  then show ?case by simp
next
  case (Cons ob obs)
  obtain now b h dur z sp where ob: "ob = (now, b, h, dur, z, sp)" by (cases ob) auto
  from Cons.prems(1) obtain m1 where m1: "observe_activity m now b h dur z sp = Inr m1"
    and rest: "observe_all m1 obs = Inr m'"
    by (auto simp: ob split: sum.splits)
  from Cons.prems(2) have ne: "a \<noteq> b" and notin: "a \<notin> set (map (fst \<circ> snd) obs)"
    by (auto simp: ob)
  have p1: "map_of (patterns m1) a = Some (decay_pattern (decay_factor m) p)"
    using observe_activity_other [OF m1 ne] Cons.prems(3) by simp
  have d1: "decay_factor m1 = decay_factor m" by (rule observe_activity_decay_factor [OF m1])
  from Cons.IH [OF rest notin p1] obtain p' where
    "map_of (patterns m') a = Some p'" "decay_factor m' = decay_factor m1"
    "observation_count_t (temporal p') =
       observation_count_t (temporal (decay_pattern (decay_factor m) p)) * decay_factor m1 ^ length obs"
    by blast
  then show ?case by (auto simp: d1 decay_pattern_fields)
qed

lemma first_observation_state:
  "observe_activity (init_memory (19 / 20)) now ''x'' (15 / 2) 25 ''kitchen'' (6 / 5) =
   Inr \<lparr>patterns =
          [(''x'', \<lparr>activity_type = ''x'',
                   temporal = \<lparr>active_hours_mean = 15 / 2, active_hours_std = 0,
                               typical_duration_mean = 25, typical_duration_std = 0,
                               frequency_per_day = 0, pattern_stability = 19 / 400,
                               last_updated = now, observation_count_t = 19 / 20\<rparr>,
                   spatial = \<lparr>zone_frequencies = [(''kitchen'', 19 / 20)],
                              movement_speed_mean = 6 / 5, movement_speed_std = 0,
                              zone_transitions = []\<rparr>,
                   success_rate = 0, typical_assistance_needed = 0\<rparr>)],
        decay_factor = 19 / 20, total_observations = 1\<rparr>"
  by (simp add: observe_activity_def get_or_create_def bump_zone_def init_memory_def default_ActivityPattern_def
      default_TemporalPattern_def default_SpatialPattern_def update_temporal_pattern_def
      update_spatial_pattern_def apply_decay_def decay_pattern_def dict_values_def Let_def)

section \<open>Pattern memory: zone frequencies\<close>

lemma sum_values_dict_set:
  "sum_list (dict_values (dict_set k v d)) =
   sum_list (dict_values d) - (case map_of d k of None \<Rightarrow> 0 | Some w \<Rightarrow> w) + (v::real)"
  by (induction d) (auto simp: dict_values_def)

lemma sum_values_bump_zone:
  "sum_list (dict_values (bump_zone zf zone)) = sum_list (dict_values zf) + 1"
  by (simp add: bump_zone_def sum_values_dict_set split: option.splits)

lemma zone_values_nonneg_sum: "zone_values_nonneg zf \<Longrightarrow> 0 \<le> sum_list (dict_values zf)"
  by (induction zf) (auto simp: zone_values_nonneg_def dict_values_def)

lemma map_of_nonneg:
  "zone_values_nonneg zf \<Longrightarrow> map_of zf z = Some v \<Longrightarrow> 0 \<le> v"
  by (auto simp: zone_values_nonneg_def list_all_iff dest!: map_of_SomeD)

lemma zone_values_nonneg_bump: "zone_values_nonneg zf \<Longrightarrow> zone_values_nonneg (bump_zone zf zone)"
proof -
  assume a: "zone_values_nonneg zf"
  show ?thesis
  proof (cases "map_of zf zone")
    case None
    then show ?thesis using a set_dict_set [of zone 1 zf]
      by (auto simp: bump_zone_def zone_values_nonneg_def list_all_iff)
  next
    case (Some w)
    with a have "0 \<le> w" by (rule map_of_nonneg)
    then show ?thesis using a Some set_dict_set [of zone "w + 1" zf]
      by (auto simp: bump_zone_def zone_values_nonneg_def list_all_iff)
  qed
qed

lemma zone_values_nonneg_div:
  "zone_values_nonneg zf \<Longrightarrow> 0 \<le> t \<Longrightarrow> zone_values_nonneg (map (\<lambda>(z, v). (z, v / t)) zf)"
  by (auto simp: zone_values_nonneg_def list_all_iff)

lemma zone_values_nonneg_mult:
  "zone_values_nonneg zf \<Longrightarrow> 0 \<le> d \<Longrightarrow> zone_values_nonneg (map (\<lambda>(z, v). (z, v * d)) zf)"
  by (auto simp: zone_values_nonneg_def list_all_iff)

lemma get_or_create_nonneg:
  assumes "zones_nonneg m"
  shows "zone_values_nonneg (zone_frequencies (spatial (get_or_create m now a)))"
proof (cases "map_of (patterns m) a")
  case None
  then show ?thesis
    by (simp add: get_or_create_def zone_values_nonneg_def default_ActivityPattern_def
        default_SpatialPattern_def)
next
  case (Some p)
  then have "(a, p) \<in> set (patterns m)" by (rule map_of_SomeD)
  with assms have "zone_values_nonneg (zone_frequencies (spatial (snd (a, p))))"
    unfolding zones_nonneg_def list_all_iff by blast
  with Some show ?thesis by (simp add: get_or_create_def)
qed

lemma observe_activity_returns:
  assumes "zones_nonneg m"
  shows "\<exists>m'. observe_activity m now a h dur z sp = Inr m'"
proof -
  let ?zf = "zone_frequencies (spatial (get_or_create m now a))"
  have "0 \<le> sum_list (dict_values ?zf)"
    by (rule zone_values_nonneg_sum [OF get_or_create_nonneg [OF assms]])
  then have "sum_list (dict_values (bump_zone ?zf z)) \<noteq> 0"
    by (simp add: sum_values_bump_zone)
  from update_spatial_pattern_total [OF this] obtain s1 where
    "update_spatial_pattern (spatial (get_or_create m now a)) z sp = Inr s1" by blast
  then show ?thesis by (rule observe_activity_total)
qed

lemma observe_activity_zones_nonneg:
  assumes "zones_nonneg m" "0 \<le> decay_factor m" "observe_activity m now a h dur z sp = Inr m'"
  shows "zones_nonneg m'"
proof -
  let ?p = "get_or_create m now a"
  let ?zf = "zone_frequencies (spatial ?p)"
  let ?d = "decay_factor m"
  from observe_activity_Inr [OF assms(3)] obtain s1 where
    s1: "update_spatial_pattern (spatial ?p) z sp = Inr s1" and
    m': "m' = \<lparr>patterns = map (\<lambda>(k, p). (k, decay_pattern ?d p))
                    (dict_set a (?p\<lparr>temporal := update_temporal_pattern now (temporal ?p) h dur,
                        spatial := s1\<rparr>) (patterns m)),
                 decay_factor = ?d, total_observations = total_observations m + 1\<rparr>" by blast
  have nn: "zone_values_nonneg ?zf" by (rule get_or_create_nonneg [OF assms(1)])
  have tot: "0 \<le> sum_list (dict_values (bump_zone ?zf z))"
    using zone_values_nonneg_sum [OF nn] by (simp add: sum_values_bump_zone)
  have zs1: "zone_values_nonneg (zone_frequencies s1)"
    unfolding update_spatial_pattern_Inr(2) [OF s1]
    by (rule zone_values_nonneg_div [OF zone_values_nonneg_bump [OF nn] tot])
  have step: "zone_values_nonneg (zone_frequencies (spatial (decay_pattern ?d q)))"
    if "zone_values_nonneg (zone_frequencies (spatial q))" for q
    unfolding decay_pattern_fields by (rule zone_values_nonneg_mult [OF that assms(2)])
  let ?q = "?p\<lparr>temporal := update_temporal_pattern now (temporal ?p) h dur, spatial := s1\<rparr>"
  have "zone_values_nonneg (zone_frequencies (spatial (snd kp)))"
    if "kp \<in> set (dict_set a ?q (patterns m))" for kp
  proof -
    from that set_dict_set [of a ?q "patterns m"]
    have "kp = (a, ?q) \<or> kp \<in> set (patterns m)" by blast
    then show ?thesis
    proof
      assume "kp = (a, ?q)" then show ?thesis using zs1 by simp
    next
      assume "kp \<in> set (patterns m)"
      with assms(1) show ?thesis unfolding zones_nonneg_def list_all_iff by blast
    qed
  qed
  then show ?thesis
    by (auto simp: m' zones_nonneg_def list_all_iff intro!: step)
qed

lemma observe_activity_zone_sum:
  assumes "observe_activity m now a h dur z sp = Inr m'"
  shows "\<exists>p'. map_of (patterns m') a = Some p' \<and> zone_frequencies (spatial p') \<noteq> [] \<and>
           sum_list (dict_values (zone_frequencies (spatial p'))) = decay_factor m"
proof -
  let ?p = "get_or_create m now a"
  let ?zf = "bump_zone (zone_frequencies (spatial ?p)) z"
  from observe_activity_self [OF assms] obtain s1 where
    s1: "update_spatial_pattern (spatial ?p) z sp = Inr s1" and
    p': "map_of (patterns m') a = Some (decay_pattern (decay_factor m)
            (?p\<lparr>temporal := update_temporal_pattern now (temporal ?p) h dur, spatial := s1\<rparr>))"
    by blast
  note zf = update_spatial_pattern_Inr [OF s1]
  have ne: "?zf \<noteq> []"
    by (simp add: bump_zone_def dict_set_nonempty split: option.splits)
  have "zone_frequencies s1 \<noteq> []" unfolding zf(2) using ne by simp
  moreover have "sum_list (dict_values (zone_frequencies s1)) = 1"
    unfolding zf(2) sum_values_div using zf(1) by simp
  ultimately show ?thesis
    using p' by (simp add: decay_pattern_fields sum_values_mult)
qed

lemma observe_all_snoc:
  "observe_all m (obs @ [(now, a, h, dur, z, sp)]) =
     (case observe_all m obs of Inl e \<Rightarrow> Inl e
      | Inr m1 \<Rightarrow> observe_activity m1 now a h dur z sp)"
  by (induction m obs rule: observe_all.induct) (auto split: sum.splits)

lemma observe_all_returns:
  "zones_nonneg m \<Longrightarrow> 0 \<le> decay_factor m \<Longrightarrow>
   \<exists>m'. observe_all m obs = Inr m' \<and> zones_nonneg m' \<and> decay_factor m' = decay_factor m"
proof (induction obs arbitrary: m)
  case Nil
  then show ?case by simp
next
  case (Cons ob obs)
  obtain now b h dur z sp where ob: "ob = (now, b, h, dur, z, sp)" by (cases ob) auto
  from observe_activity_returns [OF Cons.prems(1)] obtain m1 where
    m1: "observe_activity m now b h dur z sp = Inr m1" by blast
  have z1: "zones_nonneg m1" by (rule observe_activity_zones_nonneg [OF Cons.prems m1])
  have d1: "decay_factor m1 = decay_factor m" by (rule observe_activity_decay_factor [OF m1])
  from Cons.IH [OF z1] Cons.prems(2) d1 obtain m' where
    "observe_all m1 obs = Inr m'" "zones_nonneg m'" "decay_factor m' = decay_factor m1" by auto
  then show ?case by (auto simp: ob m1 d1)
qed

lemma zones_nonneg_init: "zones_nonneg (init_memory d)"
  by (simp add: zones_nonneg_def init_memory_def)

lemma memory_after_x_reached:
  "observe_activity (init_memory (19 / 20)) 0 ''x'' (15 / 2) 25 ''kitchen'' (6 / 5) =
   Inr memory_after_x"
  by (simp add: first_observation_state memory_after_x_def)

lemma zones_nonneg_memory_after_x: "zones_nonneg memory_after_x"
  by (simp add: memory_after_x_def zones_nonneg_def zone_values_nonneg_def)

lemma update_temporal_pattern_count:
  "observation_count_t (update_temporal_pattern now t h dur) = observation_count_t t + 1"
  "pattern_stability (update_temporal_pattern now t h dur) =
     min 1 ((observation_count_t t + 1) / 20)"
  by (simp_all add: update_temporal_pattern_def Let_def)

section \<open>Pattern memory: the running statistics\<close>

lemma update_temporal_pattern_means:
  "active_hours_mean (update_temporal_pattern now t h dur) =
     (if observation_count_t t = 0 then h else 1 / 5 * h + (1 - 1 / 5) * active_hours_mean t)"
  "typical_duration_mean (update_temporal_pattern now t h dur) =
     (if observation_count_t t = 0 then dur
      else 1 / 5 * dur + (1 - 1 / 5) * typical_duration_mean t)"
  by (simp_all add: update_temporal_pattern_def Let_def)

lemma update_temporal_pattern_stds:
  "0 \<le> active_hours_std (update_temporal_pattern now t h dur)"
  "0 \<le> typical_duration_std (update_temporal_pattern now t h dur)"
  by (simp_all add: update_temporal_pattern_def Let_def)

lemma update_spatial_pattern_speed:
  "update_spatial_pattern s zone speed = Inr s' \<Longrightarrow>
   movement_speed_mean s' =
     (if movement_speed_mean s = 0 then speed
      else 1 / 5 * speed + (1 - 1 / 5) * movement_speed_mean s)"
  by (auto simp: update_spatial_pattern_def Let_def split: if_splits)

section \<open>Pattern memory: standard deviations and the demo store\<close>

lemma stds_nonneg_init: "stds_nonneg (init_memory d)"
  by (simp add: stds_nonneg_def init_memory_def)

lemma observe_activity_stds_nonneg:
  assumes "stds_nonneg m" "observe_activity m now a h dur z sp = Inr m'"
  shows "stds_nonneg m'"
proof -
  let ?p = "get_or_create m now a"
  let ?d = "decay_factor m"
  from observe_activity_Inr [OF assms(2)] obtain s1 where
    m': "m' = \<lparr>patterns = map (\<lambda>(k, p). (k, decay_pattern ?d p))
                    (dict_set a (?p\<lparr>temporal := update_temporal_pattern now (temporal ?p) h dur,
                        spatial := s1\<rparr>) (patterns m)),
                 decay_factor = ?d, total_observations = total_observations m + 1\<rparr>" by blast
  let ?q = "?p\<lparr>temporal := update_temporal_pattern now (temporal ?p) h dur, spatial := s1\<rparr>"
  have "0 \<le> active_hours_std (temporal (snd kp)) \<and> 0 \<le> typical_duration_std (temporal (snd kp))"
    if "kp \<in> set (dict_set a ?q (patterns m))" for kp
  proof -
    from that set_dict_set [of a ?q "patterns m"]
    have "kp = (a, ?q) \<or> kp \<in> set (patterns m)" by blast
    then show ?thesis
    proof
      assume "kp = (a, ?q)" then show ?thesis by (simp add: update_temporal_pattern_stds)
    next
      assume "kp \<in> set (patterns m)"
      with assms(1) show ?thesis unfolding stds_nonneg_def list_all_iff by blast
    qed
  qed
  then show ?thesis
    by (auto simp: m' stds_nonneg_def list_all_iff decay_pattern_fields)
qed

lemma observe_all_stds_nonneg:
  "stds_nonneg m \<Longrightarrow> observe_all m obs = Inr m' \<Longrightarrow> stds_nonneg m'"
proof (induction obs arbitrary: m)
  case Nil
  then show ?case by simp
next
  case (Cons ob obs)
  obtain now b h dur z sp where ob: "ob = (now, b, h, dur, z, sp)" by (cases ob) auto
  from Cons.prems(2) obtain m1 where m1: "observe_activity m now b h dur z sp = Inr m1"
    and rest: "observe_all m1 obs = Inr m'"
    by (auto simp: ob split: sum.splits)
  from Cons.IH [OF observe_activity_stds_nonneg [OF Cons.prems(1) m1] rest] show ?case .
qed

lemma stds_nonneg_get:
  "stds_nonneg m \<Longrightarrow> get_pattern m a = Some p \<Longrightarrow>
   0 \<le> active_hours_std (temporal p) \<and> 0 \<le> typical_duration_std (temporal p)"
  unfolding stds_nonneg_def list_all_iff get_pattern_def
  by (drule map_of_SomeD) force

lemma zscore_code_spec:
  "0 \<le> std \<Longrightarrow> (if std > 0 then \<bar>(x - mean) / std\<bar> else 0) = spec_zscore x mean std"
  by (auto simp: spec_zscore_def abs_divide)

lemma sqrt_9_25: "sqrt (9 / 25) = 3 / 5"
  by (rule real_sqrt_unique) (simp_all add: power2_eq_square)

lemma memory_breakfast_reached:
  "observe_all (init_memory (19 / 20)) breakfast_observations = Inr memory_breakfast"
  by (simp add: breakfast_observations_def memory_breakfast_def
      observe_activity_def get_or_create_def bump_zone_def init_memory_def
      default_ActivityPattern_def default_TemporalPattern_def default_SpatialPattern_def
      update_temporal_pattern_def update_spatial_pattern_def apply_decay_def decay_pattern_def
      dict_values_def Let_def power2_eq_square sqrt_9_25)


section \<open>Claims about the pattern memory\<close>

text \<open>
  C1, as the code has it: right after every \<open>observe_activity\<close> call that returns, the
  zone frequencies of the observed activity are non-empty and sum to \<open>decay_factor\<close>
  (not to 1: the decay of the same call scales the renormalised frequencies). A call on a
  store without negative zone frequencies and with a non-negative decay factor returns
  and keeps both; so every non-empty sequence of calls on a new store returns, and the
  activity of its last call has frequencies summing to the decay factor.
\<close>

theorem zone_frequencies_sum_is_decay_factor:
  "(\<forall>m'. observe_activity m now a h dur z sp = Inr m' \<longrightarrow>
      (\<exists>p'. get_pattern m' a = Some p' \<and> zone_frequencies (spatial p') \<noteq> [] \<and>
         sum_list (dict_values (zone_frequencies (spatial p'))) = decay_factor m)) \<and>
   (zones_nonneg m \<and> 0 \<le> decay_factor m \<longrightarrow>
      (\<exists>m'. observe_activity m now a h dur z sp = Inr m' \<and> zones_nonneg m' \<and>
         decay_factor m' = decay_factor m)) \<and>
   (0 \<le> d \<longrightarrow>
      (\<exists>m'. observe_all (init_memory d) (obs @ [(now, a, h, dur, z, sp)]) = Inr m' \<and>
         (\<exists>p'. get_pattern m' a = Some p' \<and> zone_frequencies (spatial p') \<noteq> [] \<and>
            sum_list (dict_values (zone_frequencies (spatial p'))) = d)))"
proof -
  have one: "\<forall>m'. observe_activity m now a h dur z sp = Inr m' \<longrightarrow>
      (\<exists>p'. get_pattern m' a = Some p' \<and> zone_frequencies (spatial p') \<noteq> [] \<and>
         sum_list (dict_values (zone_frequencies (spatial p'))) = decay_factor m)"
    using observe_activity_zone_sum by (simp add: get_pattern_def)
  have two: "zones_nonneg m \<and> 0 \<le> decay_factor m \<longrightarrow>
      (\<exists>m'. observe_activity m now a h dur z sp = Inr m' \<and> zones_nonneg m' \<and>
         decay_factor m' = decay_factor m)"
  proof (intro impI)
    assume h: "zones_nonneg m \<and> 0 \<le> decay_factor m"
    from observe_activity_returns [of m now a h dur z sp] h obtain m' where
      m': "observe_activity m now a h dur z sp = Inr m'" by blast
    from observe_activity_zones_nonneg [OF _ _ m'] h have "zones_nonneg m'" by blast
    with m' observe_activity_decay_factor [OF m'] show
      "\<exists>m'. observe_activity m now a h dur z sp = Inr m' \<and> zones_nonneg m' \<and>
         decay_factor m' = decay_factor m" by blast
  qed
  have three: "\<exists>m'. observe_all (init_memory d) (obs @ [(now, a, h, dur, z, sp)]) = Inr m' \<and>
         (\<exists>p'. get_pattern m' a = Some p' \<and> zone_frequencies (spatial p') \<noteq> [] \<and>
            sum_list (dict_values (zone_frequencies (spatial p'))) = d)" if d: "0 \<le> d"
  proof -
    have d0: "0 \<le> decay_factor (init_memory d)" using d by (simp add: init_memory_def)
    from observe_all_returns [OF zones_nonneg_init d0, of obs] obtain m1 where
      m1: "observe_all (init_memory d) obs = Inr m1" "zones_nonneg m1"
          "decay_factor m1 = d" by (auto simp: init_memory_def)
    from observe_activity_returns [OF m1(2)] obtain m' where
      m': "observe_activity m1 now a h dur z sp = Inr m'" by blast
    from observe_activity_zone_sum [OF m'] m1(3) m' m1(1) show ?thesis
      by (auto simp: observe_all_snoc get_pattern_def)
  qed
  from one two three show ?thesis by blast
qed


theorem zone_frequencies_sum_is_decay_factor_witness:
  "zones_nonneg (init_memory (19 / 20)) \<and> 0 \<le> decay_factor (init_memory (19 / 20)) \<and>
   (\<exists>m' p'. observe_activity (init_memory (19 / 20)) 1 ''x'' 8 30 ''dining_room'' 1 = Inr m' \<and>
      get_pattern m' ''x'' = Some p' \<and> zone_frequencies (spatial p') \<noteq> [] \<and>
      sum_list (dict_values (zone_frequencies (spatial p'))) = 19 / 20) \<and>
   (\<exists>m' p'. observe_all (init_memory (19 / 20))
        ([(0, ''x'', 15 / 2, 25, ''kitchen'', 6 / 5)] @ [(1, ''x'', 8, 30, ''dining_room'', 1)])
        = Inr m' \<and>
      get_pattern m' ''x'' = Some p' \<and> zone_frequencies (spatial p') \<noteq> [] \<and>
      sum_list (dict_values (zone_frequencies (spatial p'))) = 19 / 20)"
proof -
  have z: "zones_nonneg (init_memory (19 / 20))" by (rule zones_nonneg_init)
  have d: "0 \<le> decay_factor (init_memory (19 / 20))" by (simp add: init_memory_def)
  have d': "decay_factor (init_memory (19 / 20)) = 19 / 20" by (simp add: init_memory_def)
  note t = zone_frequencies_sum_is_decay_factor
             [of "init_memory (19 / 20)" 1 "''x''" 8 30 "''dining_room''" 1 "19 / 20"
                 "[(0, ''x'', 15 / 2, 25, ''kitchen'', 6 / 5)]"]
  from t z d obtain m' where m': "observe_activity (init_memory (19 / 20)) 1 ''x'' 8 30 ''dining_room'' 1 = Inr m'"
    by blast
  with t have one: "\<exists>m' p'. observe_activity (init_memory (19 / 20)) 1 ''x'' 8 30 ''dining_room'' 1 = Inr m' \<and>
      get_pattern m' ''x'' = Some p' \<and> zone_frequencies (spatial p') \<noteq> [] \<and>
      sum_list (dict_values (zone_frequencies (spatial p'))) = 19 / 20"
    unfolding d' by blast
  from t have two: "\<exists>m' p'. observe_all (init_memory (19 / 20))
        ([(0, ''x'', 15 / 2, 25, ''kitchen'', 6 / 5)] @ [(1, ''x'', 8, 30, ''dining_room'', 1)])
        = Inr m' \<and>
      get_pattern m' ''x'' = Some p' \<and> zone_frequencies (spatial p') \<noteq> [] \<and>
      sum_list (dict_values (zone_frequencies (spatial p'))) = 19 / 20"
    by force
  from z d one two show ?thesis by blast
qed

text \<open>
  C1 as stated fails: after the first observation on a new store with decay factor 0.95
  the only zone frequency is 0.95.
\<close>

theorem zone_frequencies_sum_counterexample:
  "map_option (sum_list \<circ> dict_values \<circ> zone_frequencies \<circ> spatial)
     (pattern_after
        (observe_activity (init_memory (19 / 20)) 0 ''x'' (15 / 2) 25 ''kitchen'' (6 / 5)) ''x'')
   = Some (19 / 20) \<and>
   map_option (sum_list \<circ> dict_values \<circ> zone_frequencies \<circ> spatial)
     (pattern_after
        (observe_activity (init_memory (19 / 20)) 0 ''x'' (15 / 2) 25 ''kitchen'' (6 / 5)) ''x'')
   \<noteq> Some 1"
  by (simp add: first_observation_state pattern_after_def get_pattern_def dict_values_def)

text \<open>
  C4: a call of \<open>observe_activity\<close> that returns keeps the decay factor \<open>d\<close> and has
  applied the decay once to every stored pattern: a pattern of another activity has its
  observation count, its stability and each zone frequency multiplied by \<open>d\<close>; the
  pattern just updated has the count \<open>(old + 1) * d\<close>, the stability
  \<open>min(1, (old + 1) / 20) * d\<close> and its renormalised zone frequencies (summing to 1)
  multiplied by \<open>d\<close>. So after \<open>k\<close> returning calls for other activities an
  untouched pattern has the count \<open>initial * d ^ k\<close>; and one
  \<open>observe_activity("x", 7.5, 25.0, "kitchen", 1.2)\<close> on a new store with decay factor
  0.95 leaves the count 0.95, the mean hour 7.5 and the hour deviation 0. On a store
  without a negative zone frequency the call does return.
\<close>

theorem decay_applied_once_per_observation:
  "(\<forall>m'. observe_activity m now a h dur z sp = Inr m' \<longrightarrow>
      decay_factor m' = decay_factor m \<and>
      (\<forall>b p. b \<noteq> a \<and> get_pattern m b = Some p \<longrightarrow>
         (\<exists>p'. get_pattern m' b = Some p' \<and>
            observation_count_t (temporal p') =
              observation_count_t (temporal p) * decay_factor m \<and>
            pattern_stability (temporal p') = pattern_stability (temporal p) * decay_factor m \<and>
            zone_frequencies (spatial p') =
              map (\<lambda>(z, v). (z, v * decay_factor m)) (zone_frequencies (spatial p)))) \<and>
      (\<exists>p' zf1. get_pattern m' a = Some p' \<and>
         observation_count_t (temporal p') =
           (observation_count_t (temporal (get_or_create m now a)) + 1) * decay_factor m \<and>
         pattern_stability (temporal p') =
           min 1 ((observation_count_t (temporal (get_or_create m now a)) + 1) / 20)
             * decay_factor m \<and>
         sum_list (dict_values zf1) = 1 \<and>
         zone_frequencies (spatial p') = map (\<lambda>(z, v). (z, v * decay_factor m)) zf1)) \<and>
   (\<forall>m' p. observe_all m obs = Inr m' \<and> a \<notin> set (map (fst \<circ> snd) obs) \<and>
        get_pattern m a = Some p \<longrightarrow>
      (\<exists>p'. get_pattern m' a = Some p' \<and>
         observation_count_t (temporal p') =
           observation_count_t (temporal p) * decay_factor m ^ length obs)) \<and>
   map_option (observation_count_t \<circ> temporal)
     (pattern_after
        (observe_activity (init_memory (19 / 20)) now ''x'' (15 / 2) 25 ''kitchen'' (6 / 5)) ''x'')
     = Some (19 / 20) \<and>
   map_option (active_hours_mean \<circ> temporal)
     (pattern_after
        (observe_activity (init_memory (19 / 20)) now ''x'' (15 / 2) 25 ''kitchen'' (6 / 5)) ''x'')
     = Some (15 / 2) \<and>
   map_option (active_hours_std \<circ> temporal)
     (pattern_after
        (observe_activity (init_memory (19 / 20)) now ''x'' (15 / 2) 25 ''kitchen'' (6 / 5)) ''x'')
     = Some 0 \<and>
   (zones_nonneg m \<longrightarrow> (\<exists>m'. observe_activity m now a h dur z sp = Inr m'))"
proof -
  have returns: "zones_nonneg m \<longrightarrow> (\<exists>m'. observe_activity m now a h dur z sp = Inr m')"
    using observe_activity_returns by blast
  have step: "decay_factor m' = decay_factor m \<and>
      (\<forall>b p. b \<noteq> a \<and> get_pattern m b = Some p \<longrightarrow>
         (\<exists>p'. get_pattern m' b = Some p' \<and>
            observation_count_t (temporal p') =
              observation_count_t (temporal p) * decay_factor m \<and>
            pattern_stability (temporal p') = pattern_stability (temporal p) * decay_factor m \<and>
            zone_frequencies (spatial p') =
              map (\<lambda>(z, v). (z, v * decay_factor m)) (zone_frequencies (spatial p)))) \<and>
      (\<exists>p' zf1. get_pattern m' a = Some p' \<and>
         observation_count_t (temporal p') =
           (observation_count_t (temporal (get_or_create m now a)) + 1) * decay_factor m \<and>
         pattern_stability (temporal p') =
           min 1 ((observation_count_t (temporal (get_or_create m now a)) + 1) / 20)
             * decay_factor m \<and>
         sum_list (dict_values zf1) = 1 \<and>
         zone_frequencies (spatial p') = map (\<lambda>(z, v). (z, v * decay_factor m)) zf1)"
    if m': "observe_activity m now a h dur z sp = Inr m'" for m'
  proof (intro conjI allI impI)
    show "decay_factor m' = decay_factor m" by (rule observe_activity_decay_factor [OF m'])
  next
    fix b p assume bp: "b \<noteq> a \<and> get_pattern m b = Some p"
    with observe_activity_other [OF m', of b]
    have "get_pattern m' b = Some (decay_pattern (decay_factor m) p)"
      by (simp add: get_pattern_def)
    then show "\<exists>p'. get_pattern m' b = Some p' \<and>
            observation_count_t (temporal p') =
              observation_count_t (temporal p) * decay_factor m \<and>
            pattern_stability (temporal p') = pattern_stability (temporal p) * decay_factor m \<and>
            zone_frequencies (spatial p') =
              map (\<lambda>(z, v). (z, v * decay_factor m)) (zone_frequencies (spatial p))"
      by (simp add: decay_pattern_fields)
  next
    let ?p = "get_or_create m now a"
    from observe_activity_self [OF m'] obtain s1 where
      s1: "update_spatial_pattern (spatial ?p) z sp = Inr s1" and
      p': "map_of (patterns m') a = Some (decay_pattern (decay_factor m)
            (?p\<lparr>temporal := update_temporal_pattern now (temporal ?p) h dur, spatial := s1\<rparr>))"
      by blast
    note zf = update_spatial_pattern_Inr [OF s1]
    have "sum_list (dict_values (zone_frequencies s1)) = 1"
      unfolding zf(2) sum_values_div using zf(1) by simp
    with p' show "\<exists>p' zf1. get_pattern m' a = Some p' \<and>
         observation_count_t (temporal p') =
           (observation_count_t (temporal ?p) + 1) * decay_factor m \<and>
         pattern_stability (temporal p') =
           min 1 ((observation_count_t (temporal ?p) + 1) / 20) * decay_factor m \<and>
         sum_list (dict_values zf1) = 1 \<and>
         zone_frequencies (spatial p') = map (\<lambda>(z, v). (z, v * decay_factor m)) zf1"
      by (intro exI [of _ "decay_pattern (decay_factor m)
            (?p\<lparr>temporal := update_temporal_pattern now (temporal ?p) h dur, spatial := s1\<rparr>)"]
          exI [of _ "zone_frequencies s1"])
        (simp add: get_pattern_def decay_pattern_fields update_temporal_pattern_count)
  qed
  have many: "\<forall>m' p. observe_all m obs = Inr m' \<and> a \<notin> set (map (fst \<circ> snd) obs) \<and>
        get_pattern m a = Some p \<longrightarrow>
      (\<exists>p'. get_pattern m' a = Some p' \<and>
         observation_count_t (temporal p') =
           observation_count_t (temporal p) * decay_factor m ^ length obs)"
    using observe_all_untouched [of m obs _ a] unfolding get_pattern_def by blast
  have ex: "map_option (observation_count_t \<circ> temporal)
     (pattern_after
        (observe_activity (init_memory (19 / 20)) now ''x'' (15 / 2) 25 ''kitchen'' (6 / 5)) ''x'')
     = Some (19 / 20)"
    "map_option (active_hours_mean \<circ> temporal)
     (pattern_after
        (observe_activity (init_memory (19 / 20)) now ''x'' (15 / 2) 25 ''kitchen'' (6 / 5)) ''x'')
     = Some (15 / 2)"
    "map_option (active_hours_std \<circ> temporal)
     (pattern_after
        (observe_activity (init_memory (19 / 20)) now ''x'' (15 / 2) 25 ''kitchen'' (6 / 5)) ''x'')
     = Some 0"
    by (simp_all add: first_observation_state pattern_after_def get_pattern_def)
  from step many ex returns show ?thesis by blast
qed


text \<open>
  The theorem at the store after one observation of \<open>x\<close>: one and two observations of
  other activities.
\<close>

theorem decay_applied_once_per_observation_witness:
  "(\<exists>m'. observe_activity memory_after_x 1 ''y'' 14 60 ''living_room'' (3 / 10) = Inr m' \<and>
      map_option (observation_count_t \<circ> temporal) (get_pattern m' ''x'') = Some (361 / 400) \<and>
      map_option (zone_frequencies \<circ> spatial) (get_pattern m' ''x'')
        = Some [(''kitchen'', 361 / 400)] \<and>
      map_option (observation_count_t \<circ> temporal) (get_pattern m' ''y'') = Some (19 / 20)) \<and>
   (\<exists>m'. observe_all memory_after_x
        [(1, ''y'', 14, 60, ''living_room'', 3 / 10), (2, ''z'', 18, 35, ''kitchen'', 1)] = Inr m' \<and>
      map_option (observation_count_t \<circ> temporal) (get_pattern m' ''x'') = Some (6859 / 8000))"
proof -
  obtain px where gx: "get_pattern memory_after_x ''x'' = Some px"
    and cx: "observation_count_t (temporal px) = 19 / 20"
    and zx: "zone_frequencies (spatial px) = [(''kitchen'', 19 / 20)]"
    by (simp add: get_pattern_def memory_after_x_def)
  have gy: "observation_count_t (temporal (get_or_create memory_after_x 1 ''y'')) = 0"
    by (simp add: get_or_create_def memory_after_x_def default_ActivityPattern_def
        default_TemporalPattern_def)
  have df: "decay_factor memory_after_x = 19 / 20" by (simp add: memory_after_x_def)
  from observe_activity_returns [OF zones_nonneg_memory_after_x] obtain m1 where
    m1: "observe_activity memory_after_x 1 ''y'' 14 60 ''living_room'' (3 / 10) = Inr m1" by blast
  note t1 = decay_applied_once_per_observation
     [of memory_after_x 1 "''y''" 14 60 "''living_room''" "3 / 10" "[]",
      THEN conjunct1, rule_format, OF m1]
  have ne: "''x'' \<noteq> ''y'' \<and> get_pattern memory_after_x ''x'' = Some px" using gx by simp
  from t1 [THEN conjunct2, THEN conjunct1, rule_format, OF ne] obtain p1 where
    p1: "get_pattern m1 ''x'' = Some p1"
        "observation_count_t (temporal p1) = observation_count_t (temporal px) * decay_factor memory_after_x"
        "zone_frequencies (spatial p1) =
           map (\<lambda>(z, v). (z, v * decay_factor memory_after_x)) (zone_frequencies (spatial px))"
    by blast
  from t1 [THEN conjunct2, THEN conjunct2] obtain p2 where
    p2: "get_pattern m1 ''y'' = Some p2"
        "observation_count_t (temporal p2) =
           (observation_count_t (temporal (get_or_create memory_after_x 1 ''y'')) + 1)
             * decay_factor memory_after_x"
    by blast
  have one: "\<exists>m'. observe_activity memory_after_x 1 ''y'' 14 60 ''living_room'' (3 / 10) = Inr m' \<and>
      map_option (observation_count_t \<circ> temporal) (get_pattern m' ''x'') = Some (361 / 400) \<and>
      map_option (zone_frequencies \<circ> spatial) (get_pattern m' ''x'')
        = Some [(''kitchen'', 361 / 400)] \<and>
      map_option (observation_count_t \<circ> temporal) (get_pattern m' ''y'') = Some (19 / 20)"
    using m1 p1 p2 by (simp add: df cx zx gy)
  let ?obs = "[(1, ''y'', 14, 60, ''living_room'', 3 / 10), (2, ''z'', 18, 35, ''kitchen'', 1)]
     :: (int \<times> string \<times> real \<times> real \<times> string \<times> real) list"
  have d0: "0 \<le> decay_factor memory_after_x" by (simp add: df)
  from observe_all_returns [OF zones_nonneg_memory_after_x d0, of ?obs] obtain m2 where
    m2: "observe_all memory_after_x ?obs = Inr m2" by blast
  have hyp: "observe_all memory_after_x ?obs = Inr m2 \<and> ''x'' \<notin> set (map (fst \<circ> snd) ?obs) \<and>
        get_pattern memory_after_x ''x'' = Some px"
    using m2 gx by simp
  from decay_applied_once_per_observation
     [of memory_after_x 0 "''x''" 0 0 "''k''" 0 ?obs,
      THEN conjunct2, THEN conjunct1, rule_format, OF hyp]
  obtain p3 where p3: "get_pattern m2 ''x'' = Some p3"
     "observation_count_t (temporal p3) =
        observation_count_t (temporal px) * decay_factor memory_after_x ^ length ?obs"
    by blast
  have two: "\<exists>m'. observe_all memory_after_x ?obs = Inr m' \<and>
      map_option (observation_count_t \<circ> temporal) (get_pattern m' ''x'') = Some (6859 / 8000)"
    using m2 p3 by (simp add: df cx power2_eq_square)
  from one two show ?thesis by blast
qed

text \<open>
  C2, as the code has it: \<open>observe_activity\<close> checks none of its arguments. On every
  store without a negative zone frequency, for every real hour, duration and speed (an
  hour outside \<open>[0, 24)\<close>, a negative duration or a negative speed included) the call
  returns, counts the observation and takes the given values into the running means.
  The mean hour and the mean duration each become either the given value or
  \<open>0.2 * value + 0.8 * old mean\<close>: the given value when the stored observation count is
  0, the weighted mean when the stored count is at least \<open>2^-52\<close>. The mean speed becomes
  the given value when the stored mean speed is 0 and \<open>0.2 * value + 0.8 * old mean\<close>
  otherwise. For an activity without a stored pattern all three means become the given
  values.
\<close>

theorem observe_activity_accepts_any_input:
  "zones_nonneg m \<longrightarrow>
   (\<exists>m' p'. observe_activity m now a h dur z sp = Inr m' \<and>
      total_observations m' = total_observations m + 1 \<and>
      get_pattern m' a = Some p' \<and>
      (active_hours_mean (temporal p') = h \<or>
       active_hours_mean (temporal p') =
         1 / 5 * h + (1 - 1 / 5) * active_hours_mean (temporal (get_or_create m now a))) \<and>
      (typical_duration_mean (temporal p') = dur \<or>
       typical_duration_mean (temporal p') =
         1 / 5 * dur + (1 - 1 / 5) * typical_duration_mean (temporal (get_or_create m now a))) \<and>
      (observation_count_t (temporal (get_or_create m now a)) = 0 \<longrightarrow>
         active_hours_mean (temporal p') = h \<and> typical_duration_mean (temporal p') = dur) \<and>
      (1 / 2 ^ 52 \<le> observation_count_t (temporal (get_or_create m now a)) \<longrightarrow>
         active_hours_mean (temporal p') =
           1 / 5 * h + (1 - 1 / 5) * active_hours_mean (temporal (get_or_create m now a)) \<and>
         typical_duration_mean (temporal p') =
           1 / 5 * dur
           + (1 - 1 / 5) * typical_duration_mean (temporal (get_or_create m now a))) \<and>
      movement_speed_mean (spatial p') =
        (if movement_speed_mean (spatial (get_or_create m now a)) = 0 then sp
         else 1 / 5 * sp
              + (1 - 1 / 5) * movement_speed_mean (spatial (get_or_create m now a))) \<and>
      (get_pattern m a = None \<longrightarrow>
         active_hours_mean (temporal p') = h \<and> typical_duration_mean (temporal p') = dur \<and>
         movement_speed_mean (spatial p') = sp))"
proof
  assume z: "zones_nonneg m"
  let ?p = "get_or_create m now a"
  from observe_activity_returns [OF z] obtain m' where
    m': "observe_activity m now a h dur z sp = Inr m'" by blast
  from observe_activity_self [OF m'] obtain s1 where
    s1: "update_spatial_pattern (spatial ?p) z sp = Inr s1" and
    p': "map_of (patterns m') a = Some (decay_pattern (decay_factor m)
          (?p\<lparr>temporal := update_temporal_pattern now (temporal ?p) h dur, spatial := s1\<rparr>))"
    by blast
  define p' where "p' = decay_pattern (decay_factor m)
          (?p\<lparr>temporal := update_temporal_pattern now (temporal ?p) h dur, spatial := s1\<rparr>)"
  have tot: "total_observations m' = total_observations m + 1"
    using observe_activity_Inr [OF m'] by auto
  have g: "get_pattern m' a = Some p'" using p' by (simp add: get_pattern_def p'_def)
  have hm: "active_hours_mean (temporal p') =
     (if observation_count_t (temporal ?p) = 0 then h
      else 1 / 5 * h + (1 - 1 / 5) * active_hours_mean (temporal ?p))"
    and dm: "typical_duration_mean (temporal p') =
     (if observation_count_t (temporal ?p) = 0 then dur
      else 1 / 5 * dur + (1 - 1 / 5) * typical_duration_mean (temporal ?p))"
    by (simp_all add: p'_def decay_pattern_fields update_temporal_pattern_means)
  have sm: "movement_speed_mean (spatial p') =
        (if movement_speed_mean (spatial ?p) = 0 then sp
         else 1 / 5 * sp + (1 - 1 / 5) * movement_speed_mean (spatial ?p))"
    by (simp add: p'_def decay_pattern_fields update_spatial_pattern_speed [OF s1])
  have fresh: "observation_count_t (temporal ?p) = 0 \<and> movement_speed_mean (spatial ?p) = 0"
    if "get_pattern m a = None"
    using that by (simp add: get_pattern_def get_or_create_def default_ActivityPattern_def
        default_TemporalPattern_def default_SpatialPattern_def)
  have e1: "active_hours_mean (temporal p') = h \<or>
       active_hours_mean (temporal p') =
         1 / 5 * h + (1 - 1 / 5) * active_hours_mean (temporal ?p)"
    and e2: "typical_duration_mean (temporal p') = dur \<or>
       typical_duration_mean (temporal p') =
         1 / 5 * dur + (1 - 1 / 5) * typical_duration_mean (temporal ?p)"
    unfolding hm dm by simp_all
  have first: "observation_count_t (temporal ?p) = 0 \<longrightarrow>
         active_hours_mean (temporal p') = h \<and> typical_duration_mean (temporal p') = dur"
    unfolding hm dm by simp
  have later: "1 / 2 ^ 52 \<le> observation_count_t (temporal ?p) \<longrightarrow>
         active_hours_mean (temporal p') =
           1 / 5 * h + (1 - 1 / 5) * active_hours_mean (temporal ?p) \<and>
         typical_duration_mean (temporal p') =
           1 / 5 * dur + (1 - 1 / 5) * typical_duration_mean (temporal ?p)"
  proof
    assume "1 / 2 ^ 52 \<le> observation_count_t (temporal ?p)"
    moreover have "(0::real) < 1 / 2 ^ 52" by simp
    ultimately have "observation_count_t (temporal ?p) \<noteq> 0" by linarith
    then show "active_hours_mean (temporal p') =
           1 / 5 * h + (1 - 1 / 5) * active_hours_mean (temporal ?p) \<and>
         typical_duration_mean (temporal p') =
           1 / 5 * dur + (1 - 1 / 5) * typical_duration_mean (temporal ?p)"
      unfolding hm dm by simp
  qed
  have new: "get_pattern m a = None \<longrightarrow>
         active_hours_mean (temporal p') = h \<and> typical_duration_mean (temporal p') = dur \<and>
         movement_speed_mean (spatial p') = sp"
    using fresh unfolding hm dm sm by simp
  show "\<exists>m' p'. observe_activity m now a h dur z sp = Inr m' \<and>
      total_observations m' = total_observations m + 1 \<and>
      get_pattern m' a = Some p' \<and>
      (active_hours_mean (temporal p') = h \<or>
       active_hours_mean (temporal p') =
         1 / 5 * h + (1 - 1 / 5) * active_hours_mean (temporal ?p)) \<and>
      (typical_duration_mean (temporal p') = dur \<or>
       typical_duration_mean (temporal p') =
         1 / 5 * dur + (1 - 1 / 5) * typical_duration_mean (temporal ?p)) \<and>
      (observation_count_t (temporal ?p) = 0 \<longrightarrow>
         active_hours_mean (temporal p') = h \<and> typical_duration_mean (temporal p') = dur) \<and>
      (1 / 2 ^ 52 \<le> observation_count_t (temporal ?p) \<longrightarrow>
         active_hours_mean (temporal p') =
           1 / 5 * h + (1 - 1 / 5) * active_hours_mean (temporal ?p) \<and>
         typical_duration_mean (temporal p') =
           1 / 5 * dur + (1 - 1 / 5) * typical_duration_mean (temporal ?p)) \<and>
      movement_speed_mean (spatial p') =
        (if movement_speed_mean (spatial ?p) = 0 then sp
         else 1 / 5 * sp + (1 - 1 / 5) * movement_speed_mean (spatial ?p)) \<and>
      (get_pattern m a = None \<longrightarrow>
         active_hours_mean (temporal p') = h \<and> typical_duration_mean (temporal p') = dur \<and>
         movement_speed_mean (spatial p') = sp)"
    apply (rule exI [of _ m'], rule exI [of _ p'])
    apply (insert m' tot g e1 e2 first later sm new)
    apply (intro conjI; assumption)
    done
qed

text \<open>
  The theorem on the store with one observation of \<open>x\<close> (stored count 0.95), with hour
  30, duration -10 and speed -2: as a second observation of \<open>x\<close>, and as a first
  observation of \<open>y\<close>.
\<close>

theorem observe_activity_accepts_any_input_witness:
  "zones_nonneg memory_after_x \<and>
   (\<exists>m' p'. observe_activity memory_after_x 1 ''x'' 30 (- 10) ''kitchen'' (- 2) = Inr m' \<and>
      total_observations m' = 2 \<and> get_pattern m' ''x'' = Some p' \<and>
      active_hours_mean (temporal p') = 12 \<and>
      typical_duration_mean (temporal p') = 18 \<and>
      movement_speed_mean (spatial p') = 14 / 25) \<and>
   (\<exists>m' p'. observe_activity memory_after_x 1 ''y'' 30 (- 10) ''kitchen'' (- 2) = Inr m' \<and>
      total_observations m' = 2 \<and> get_pattern m' ''y'' = Some p' \<and>
      active_hours_mean (temporal p') = 30 \<and>
      typical_duration_mean (temporal p') = - 10 \<and>
      movement_speed_mean (spatial p') = - 2)"
proof -
  have g: "observation_count_t (temporal (get_or_create memory_after_x 1 ''x'')) = 19 / 20"
    "active_hours_mean (temporal (get_or_create memory_after_x 1 ''x'')) = 15 / 2"
    "typical_duration_mean (temporal (get_or_create memory_after_x 1 ''x'')) = 25"
    "movement_speed_mean (spatial (get_or_create memory_after_x 1 ''x'')) = 6 / 5"
    "total_observations memory_after_x = 1"
    by (simp_all add: get_or_create_def memory_after_x_def)
  have big: "(1::real) / 2 ^ 52 \<le> 19 / 20" by simp
  from observe_activity_accepts_any_input
      [of memory_after_x 1 "''x''" 30 "- 10" "''kitchen''" "- 2", THEN mp,
       OF zones_nonneg_memory_after_x]
  have one: "\<exists>m' p'. observe_activity memory_after_x 1 ''x'' 30 (- 10) ''kitchen'' (- 2) = Inr m' \<and>
      total_observations m' = 2 \<and> get_pattern m' ''x'' = Some p' \<and>
      active_hours_mean (temporal p') = 12 \<and>
      typical_duration_mean (temporal p') = 18 \<and>
      movement_speed_mean (spatial p') = 14 / 25"
    unfolding g using big by auto
  have none: "get_pattern memory_after_x ''y'' = None"
    by (simp add: get_pattern_def memory_after_x_def)
  from observe_activity_accepts_any_input
      [of memory_after_x 1 "''y''" 30 "- 10" "''kitchen''" "- 2", THEN mp,
       OF zones_nonneg_memory_after_x]
  have two: "\<exists>m' p'. observe_activity memory_after_x 1 ''y'' 30 (- 10) ''kitchen'' (- 2) = Inr m' \<and>
      total_observations m' = 2 \<and> get_pattern m' ''y'' = Some p' \<and>
      active_hours_mean (temporal p') = 30 \<and>
      typical_duration_mean (temporal p') = - 10 \<and>
      movement_speed_mean (spatial p') = - 2"
    using none g(5) by auto
  from zones_nonneg_memory_after_x one two show ?thesis by blast
qed

text \<open>
  C2 as stated fails: on a new store, hour 25, duration -5 and speed -1 are accepted and
  become the stored means of a pattern that did not exist before.
\<close>

theorem observe_activity_invalid_input_counterexample:
  "map_option (active_hours_mean \<circ> temporal)
     (pattern_after (observe_activity (init_memory (19 / 20)) 0 ''x'' 25 (- 5) ''kitchen'' (- 1))
        ''x'') = Some 25 \<and>
   map_option (typical_duration_mean \<circ> temporal)
     (pattern_after (observe_activity (init_memory (19 / 20)) 0 ''x'' 25 (- 5) ''kitchen'' (- 1))
        ''x'') = Some (- 5) \<and>
   map_option (movement_speed_mean \<circ> spatial)
     (pattern_after (observe_activity (init_memory (19 / 20)) 0 ''x'' 25 (- 5) ''kitchen'' (- 1))
        ''x'') = Some (- 1) \<and>
   get_pattern (init_memory (19 / 20)) ''x'' = None"
  by (simp add: observe_activity_def get_or_create_def bump_zone_def init_memory_def
      default_ActivityPattern_def default_TemporalPattern_def default_SpatialPattern_def
      update_temporal_pattern_def update_spatial_pattern_def apply_decay_def decay_pattern_def
      dict_values_def pattern_after_def get_pattern_def Let_def)

text \<open>
  C5: \<open>detect_anomaly\<close> returns \<open>(False, 0)\<close> when the activity has no pattern or
  its decayed observation count is below 3. Otherwise, the stored deviations being
  non-negative, it returns the larger of the two z-scores \<open>|x - mean| / std\<close> (0 when
  \<open>std\<close> is 0) and whether that exceeds 2; a query three deviations from the mean in
  one dimension and at the mean in the other gives \<open>(True, 3)\<close>. Every store built by
  \<open>observe_activity\<close> calls on a new store has non-negative deviations.
\<close>

theorem detect_anomaly_spec:
  "(get_pattern m a = None \<longrightarrow> detect_anomaly m a x y = (False, 0)) \<and>
   (\<forall>p. get_pattern m a = Some p \<and> observation_count_t (temporal p) < 3 \<longrightarrow>
      detect_anomaly m a x y = (False, 0)) \<and>
   (\<forall>p. get_pattern m a = Some p \<and> \<not> observation_count_t (temporal p) < 3 \<and>
        0 \<le> active_hours_std (temporal p) \<and> 0 \<le> typical_duration_std (temporal p) \<longrightarrow>
      detect_anomaly m a x y =
        (max (spec_zscore x (active_hours_mean (temporal p)) (active_hours_std (temporal p)))
             (spec_zscore y (typical_duration_mean (temporal p))
                (typical_duration_std (temporal p))) > 2,
         max (spec_zscore x (active_hours_mean (temporal p)) (active_hours_std (temporal p)))
             (spec_zscore y (typical_duration_mean (temporal p))
                (typical_duration_std (temporal p))))) \<and>
   (\<forall>p. get_pattern m a = Some p \<and> \<not> observation_count_t (temporal p) < 3 \<and>
        0 < active_hours_std (temporal p) \<and>
        \<bar>x - active_hours_mean (temporal p)\<bar> = 3 * active_hours_std (temporal p) \<longrightarrow>
      detect_anomaly m a x (typical_duration_mean (temporal p)) = (True, 3)) \<and>
   (\<forall>p. get_pattern m a = Some p \<and> \<not> observation_count_t (temporal p) < 3 \<and>
        0 < typical_duration_std (temporal p) \<and>
        \<bar>y - typical_duration_mean (temporal p)\<bar> = 3 * typical_duration_std (temporal p) \<longrightarrow>
      detect_anomaly m a (active_hours_mean (temporal p)) y = (True, 3)) \<and>
   (\<forall>m0 p. observe_all (init_memory d) obs = Inr m0 \<and> get_pattern m0 a = Some p \<longrightarrow>
      0 \<le> active_hours_std (temporal p) \<and> 0 \<le> typical_duration_std (temporal p))"
proof -
  have absent: "get_pattern m a = None \<longrightarrow> detect_anomaly m a x y = (False, 0)"
    by (simp add: detect_anomaly_def)
  have few: "\<forall>p. get_pattern m a = Some p \<and> observation_count_t (temporal p) < 3 \<longrightarrow>
      detect_anomaly m a x y = (False, 0)"
    by (simp add: detect_anomaly_def)
  have general: "\<forall>p. get_pattern m a = Some p \<and> \<not> observation_count_t (temporal p) < 3 \<and>
        0 \<le> active_hours_std (temporal p) \<and> 0 \<le> typical_duration_std (temporal p) \<longrightarrow>
      detect_anomaly m a x y =
        (max (spec_zscore x (active_hours_mean (temporal p)) (active_hours_std (temporal p)))
             (spec_zscore y (typical_duration_mean (temporal p))
                (typical_duration_std (temporal p))) > 2,
         max (spec_zscore x (active_hours_mean (temporal p)) (active_hours_std (temporal p)))
             (spec_zscore y (typical_duration_mean (temporal p))
                (typical_duration_std (temporal p))))"
    by (simp add: detect_anomaly_def Let_def zscore_code_spec)
  have hour3: "detect_anomaly m a x (typical_duration_mean (temporal p)) = (True, 3)"
    if "get_pattern m a = Some p \<and> \<not> observation_count_t (temporal p) < 3 \<and>
        0 < active_hours_std (temporal p) \<and>
        \<bar>x - active_hours_mean (temporal p)\<bar> = 3 * active_hours_std (temporal p)" for p
    using that by (simp add: detect_anomaly_def Let_def abs_divide)
  have dur3: "detect_anomaly m a (active_hours_mean (temporal p)) y = (True, 3)"
    if "get_pattern m a = Some p \<and> \<not> observation_count_t (temporal p) < 3 \<and>
        0 < typical_duration_std (temporal p) \<and>
        \<bar>y - typical_duration_mean (temporal p)\<bar> = 3 * typical_duration_std (temporal p)" for p
    using that by (simp add: detect_anomaly_def Let_def abs_divide)
  have reach: "\<forall>m0 p. observe_all (init_memory d) obs = Inr m0 \<and> get_pattern m0 a = Some p \<longrightarrow>
      0 \<le> active_hours_std (temporal p) \<and> 0 \<le> typical_duration_std (temporal p)"
    using observe_all_stds_nonneg [OF stds_nonneg_init] stds_nonneg_get by blast
  from absent few general hour3 dur3 reach show ?thesis by blast
qed


text \<open>
  The theorem on the breakfast store (an unknown activity, three-deviation queries in
  either dimension, an ordinary query) and on the store with one observation.
\<close>

theorem detect_anomaly_spec_witness:
  "detect_anomaly memory_breakfast ''lunch'' 12 30 = (False, 0) \<and>
   detect_anomaly memory_after_x ''x'' 3 90 = (False, 0) \<and>
   detect_anomaly memory_breakfast ''breakfast'' 8 22 = (True, 37 / 15) \<and>
   detect_anomaly memory_breakfast ''breakfast'' (233 / 25) (513 / 25) = (True, 3) \<and>
   detect_anomaly memory_breakfast ''breakfast'' (188 / 25) (468 / 25) = (True, 3) \<and>
   observe_all (init_memory (19 / 20)) breakfast_observations = Inr memory_breakfast"
proof -
  obtain p where p: "get_pattern memory_breakfast ''breakfast'' = Some p"
    and f: "observation_count_t (temporal p) = 563901 / 160000"
      "active_hours_mean (temporal p) = 188 / 25" "active_hours_std (temporal p) = 3 / 5"
      "typical_duration_mean (temporal p) = 513 / 25" "typical_duration_std (temporal p) = 3 / 5"
    by (simp add: get_pattern_def memory_breakfast_def)
  obtain q where q: "get_pattern memory_after_x ''x'' = Some q"
    and fq: "observation_count_t (temporal q) = 19 / 20"
    by (simp add: get_pattern_def memory_after_x_def)
  have none: "get_pattern memory_breakfast ''lunch'' = None"
    by (simp add: get_pattern_def memory_breakfast_def)
  have a: "detect_anomaly memory_breakfast ''lunch'' 12 30 = (False, 0)"
    using detect_anomaly_spec [of memory_breakfast "''lunch''" 12 30 0 "[]"] none by blast
  have hq: "get_pattern memory_after_x ''x'' = Some q \<and> observation_count_t (temporal q) < 3"
    using q fq by simp
  have b: "detect_anomaly memory_after_x ''x'' 3 90 = (False, 0)"
    using detect_anomaly_spec [of memory_after_x "''x''" 3 90 0 "[]",
        THEN conjunct2, THEN conjunct1, rule_format, OF hq] .
  have hc: "get_pattern memory_breakfast ''breakfast'' = Some p \<and>
        \<not> observation_count_t (temporal p) < 3 \<and>
        0 \<le> active_hours_std (temporal p) \<and> 0 \<le> typical_duration_std (temporal p)"
    using p f by simp
  have c: "detect_anomaly memory_breakfast ''breakfast'' 8 22 = (True, 37 / 15)"
    using detect_anomaly_spec [of memory_breakfast "''breakfast''" 8 22 0 "[]",
        THEN conjunct2, THEN conjunct2, THEN conjunct1, rule_format, OF hc]
    by (simp add: f spec_zscore_def)
  have hd: "get_pattern memory_breakfast ''breakfast'' = Some p \<and>
        \<not> observation_count_t (temporal p) < 3 \<and> 0 < active_hours_std (temporal p) \<and>
        \<bar>233 / 25 - active_hours_mean (temporal p)\<bar> = 3 * active_hours_std (temporal p)"
    using p f by simp
  have d: "detect_anomaly memory_breakfast ''breakfast'' (233 / 25) (513 / 25) = (True, 3)"
    using detect_anomaly_spec [of memory_breakfast "''breakfast''" "233 / 25" 0 0 "[]",
        THEN conjunct2, THEN conjunct2, THEN conjunct2, THEN conjunct1, rule_format, OF hd]
    by (simp add: f)
  have he: "get_pattern memory_breakfast ''breakfast'' = Some p \<and>
        \<not> observation_count_t (temporal p) < 3 \<and> 0 < typical_duration_std (temporal p) \<and>
        \<bar>468 / 25 - typical_duration_mean (temporal p)\<bar> = 3 * typical_duration_std (temporal p)"
    using p f by simp
  have e: "detect_anomaly memory_breakfast ''breakfast'' (188 / 25) (468 / 25) = (True, 3)"
    using detect_anomaly_spec [of memory_breakfast "''breakfast''" 0 "468 / 25" 0 "[]",
        THEN conjunct2, THEN conjunct2, THEN conjunct2, THEN conjunct2, THEN conjunct1,
        rule_format, OF he]
    by (simp add: f)
  from a b c d e memory_breakfast_reached show ?thesis by blast
qed

text \<open>
  C7, the code at the failing input: \<open>_update_spatial_pattern\<close> takes a stored mean
  speed of 0 for "no sample yet". After a first observation with speed 0 the stored mean
  is 0, so a second observation with speed 1 is treated as a first sample again: the mean
  becomes 1 and the deviation 0, where the update rule gives \<open>0.2 * 1 + 0.8 * 0 = 0.2\<close>
  and \<open>sqrt(0.2)\<close>. The hour accumulator of the same two calls follows the rule.
\<close>

theorem speed_accumulator_restarts_at_zero_mean:
  "map_option (movement_speed_mean \<circ> spatial)
     (pattern_after (observe_all (init_memory (19 / 20))
        [(0, ''rest'', 14, 60, ''bedroom'', 0)]) ''rest'') = Some 0 \<and>
   map_option (movement_speed_mean \<circ> spatial)
     (pattern_after (observe_all (init_memory (19 / 20))
        [(0, ''rest'', 14, 60, ''bedroom'', 0), (1, ''rest'', 14, 60, ''bedroom'', 1)]) ''rest'')
     = Some 1 \<and>
   map_option (movement_speed_std \<circ> spatial)
     (pattern_after (observe_all (init_memory (19 / 20))
        [(0, ''rest'', 14, 60, ''bedroom'', 0), (1, ''rest'', 14, 60, ''bedroom'', 1)]) ''rest'')
     = Some 0 \<and>
   map_option (active_hours_mean \<circ> temporal)
     (pattern_after (observe_all (init_memory (19 / 20))
        [(0, ''rest'', 14, 60, ''bedroom'', 0), (1, ''rest'', 16, 60, ''bedroom'', 1)]) ''rest'')
     = Some (1 / 5 * 16 + (1 - 1 / 5) * 14)"
  by (simp add: observe_activity_def get_or_create_def bump_zone_def init_memory_def
      default_ActivityPattern_def default_TemporalPattern_def default_SpatialPattern_def
      update_temporal_pattern_def update_spatial_pattern_def apply_decay_def decay_pattern_def
      dict_values_def pattern_after_def get_pattern_def Let_def)

end
